theory Spec2Isabelle
  imports Complex_Main "HOL-Library.Word" "HOL-Library.Sublist"
begin

unbundle bit_operations_syntax

section \<open>Bytes, strings and exceptions\<close>

text \<open>
  \<^verbatim>\<open>pin_extract.py\<close> is a 69-line script: it fetches the leaf certificate of a TLS
  server, re-encodes the certificate's public key in the layout of iOS's
  \<^verbatim>\<open>SecKeyCopyExternalRepresentation\<close>, and prints the Base64 of the SHA-256 of those
  bytes. Python \<^verbatim>\<open>bytes\<close> are lists of 8-bit words. A Python \<^verbatim>\<open>str\<close> is a
  \<^typ>\<open>string\<close>; a character that is not ASCII (the script has two, an arrow and a
  dash) is held as the bytes of its UTF-8 encoding. Every exception the script can
  meet is an instance of \<^verbatim>\<open>Exception\<close>; the constructor is the Python class and the
  argument is \<^verbatim>\<open>str(e)\<close>.
\<close>

type_synonym byte = "8 word"
type_synonym bytes = "byte list"
type_synonym u32 = "32 word"

datatype py_exception =
    OSError string
  | SSLError string
  | SSLCertVerificationError string
  | ValueError string
  | UnsupportedAlgorithm string
  | UnicodeDecodeError string
  | UnicodeEncodeError string

fun str_of :: "py_exception \<Rightarrow> string" where
  "str_of (OSError m) = m"
| "str_of (SSLError m) = m"
| "str_of (SSLCertVerificationError m) = m"
| "str_of (ValueError m) = m"
| "str_of (UnsupportedAlgorithm m) = m"
| "str_of (UnicodeDecodeError m) = m"
| "str_of (UnicodeEncodeError m) = m"

section \<open>The standard library: \<^verbatim>\<open>hashlib.sha256\<close> and \<^verbatim>\<open>base64.b64encode\<close>\<close>

text \<open>SHA-256 as in FIPS 180-4, on 32-bit words; the round constants and the initial
  hash value are written in decimal.\<close>

definition rotr :: "nat \<Rightarrow> u32 \<Rightarrow> u32" where
  "rotr n x = drop_bit n x OR push_bit (32 - n) x"

definition Ch :: "u32 \<Rightarrow> u32 \<Rightarrow> u32 \<Rightarrow> u32" where
  "Ch x y z = (x AND y) XOR (NOT x AND z)"

definition Maj :: "u32 \<Rightarrow> u32 \<Rightarrow> u32 \<Rightarrow> u32" where
  "Maj x y z = (x AND y) XOR (x AND z) XOR (y AND z)"

definition bsig0 :: "u32 \<Rightarrow> u32" where
  "bsig0 x = rotr 2 x XOR rotr 13 x XOR rotr 22 x"

definition bsig1 :: "u32 \<Rightarrow> u32" where
  "bsig1 x = rotr 6 x XOR rotr 11 x XOR rotr 25 x"

definition ssig0 :: "u32 \<Rightarrow> u32" where
  "ssig0 x = rotr 7 x XOR rotr 18 x XOR drop_bit 3 x"

definition ssig1 :: "u32 \<Rightarrow> u32" where
  "ssig1 x = rotr 17 x XOR rotr 19 x XOR drop_bit 10 x"

definition sha256_K :: "u32 list" where
  "sha256_K =
    [1116352408, 1899447441, 3049323471, 3921009573, 961987163, 1508970993, 2453635748, 2870763221,
     3624381080, 310598401, 607225278, 1426881987, 1925078388, 2162078206, 2614888103, 3248222580,
     3835390401, 4022224774, 264347078, 604807628, 770255983, 1249150122, 1555081692, 1996064986,
     2554220882, 2821834349, 2952996808, 3210313671, 3336571891, 3584528711, 113926993, 338241895,
     666307205, 773529912, 1294757372, 1396182291, 1695183700, 1986661051, 2177026350, 2456956037,
     2730485921, 2820302411, 3259730800, 3345764771, 3516065817, 3600352804, 4094571909, 275423344,
     430227734, 506948616, 659060556, 883997877, 958139571, 1322822218, 1537002063, 1747873779,
     1955562222, 2024104815, 2227730452, 2361852424, 2428436474, 2756734187, 3204031479, 3329325298]"

definition sha256_H0 :: "u32 list" where
  "sha256_H0 = [1779033703, 3144134277, 1013904242, 2773480762,
                1359893119, 2600822924, 528734635, 1541459225]"

fun be_word32 :: "bytes \<Rightarrow> u32 list" where
  "be_word32 (a # b # c # d # rest) =
     (push_bit 24 (ucast a) OR push_bit 16 (ucast b) OR push_bit 8 (ucast c) OR ucast d)
       # be_word32 rest"
| "be_word32 _ = []"

definition word32_be :: "u32 \<Rightarrow> bytes" where
  "word32_be w = [ucast (drop_bit 24 w), ucast (drop_bit 16 w), ucast (drop_bit 8 w), ucast w]"

fun schedule :: "nat \<Rightarrow> u32 list \<Rightarrow> u32 list" where
  "schedule 0 w = w"
| "schedule (Suc k) w =
     (let t = length w
      in schedule k
           (w @ [ssig1 (w ! (t - 2)) + w ! (t - 7) + ssig0 (w ! (t - 15)) + w ! (t - 16)]))"

fun round256 :: "u32 list \<Rightarrow> u32 \<times> u32 \<Rightarrow> u32 list" where
  "round256 [a, b, c, d, e, f, g, h] (k, w) =
     (let t1 = h + bsig1 e + Ch e f g + k + w;
          t2 = bsig0 a + Maj a b c
      in [t1 + t2, a, b, c, d + t1, e, f, g])"
| "round256 s _ = s"

definition compress :: "u32 list \<Rightarrow> bytes \<Rightarrow> u32 list" where
  "compress hs block =
     map2 (+) hs (foldl round256 hs (zip sha256_K (schedule 48 (be_word32 block))))"

definition sha256_pad :: "bytes \<Rightarrow> bytes" where
  "sha256_pad m =
     (let n = length m;
          bits = (word_of_nat (8 * n) :: 64 word)
      in m @ [0x80] @ replicate ((119 - n mod 64) mod 64) 0
           @ map (\<lambda>i. ucast (drop_bit (8 * i) bits)) [7, 6, 5, 4, 3, 2, 1, 0])"

fun blocks :: "nat \<Rightarrow> bytes \<Rightarrow> bytes list" where
  "blocks 0 m = []"
| "blocks (Suc k) m = take 64 m # blocks k (drop 64 m)"

definition sha256 :: "bytes \<Rightarrow> bytes" where
  "sha256 m =
     (let p = sha256_pad m
      in concat (map word32_be (foldl compress sha256_H0 (blocks (length p div 64) p))))"

text \<open>
  \<^verbatim>\<open>base64.b64encode\<close>: the standard alphabet of RFC 4648, three bytes to four
  characters, padded with \<^verbatim>\<open>=\<close>; no line breaks are inserted.
\<close>

definition b64_table :: "bytes" where
  "b64_table =
     map of_char ''ABCDEFGHIJKLMNOPQRSTUVWXYZabcdefghijklmnopqrstuvwxyz0123456789+/''"

definition b64_char :: "byte \<Rightarrow> byte" where
  "b64_char i = b64_table ! unat (i AND 0x3F)"

fun b64encode :: "bytes \<Rightarrow> bytes" where
  "b64encode (a # b # c # rest) =
     [b64_char (drop_bit 2 a),
      b64_char (push_bit 4 (a AND 3) OR drop_bit 4 b),
      b64_char (push_bit 2 (b AND 15) OR drop_bit 6 c),
      b64_char (c AND 63)] @ b64encode rest"
| "b64encode [a, b] =
     [b64_char (drop_bit 2 a),
      b64_char (push_bit 4 (a AND 3) OR drop_bit 4 b),
      b64_char (push_bit 2 (b AND 15)),
      0x3D]"
| "b64encode [a] =
     [b64_char (drop_bit 2 a),
      b64_char (push_bit 4 (a AND 3)),
      0x3D, 0x3D]"
| "b64encode [] = []"

text \<open>
  \<^verbatim>\<open>bytes.decode("ascii")\<close> raises \<^verbatim>\<open>UnicodeDecodeError\<close> at the first byte
  above 127.
\<close>

definition ascii :: "bytes \<Rightarrow> string" where
  "ascii bs = map (\<lambda>b. char_of (unat b)) bs"

definition decode_ascii :: "bytes \<Rightarrow> py_exception + string" where
  "decode_ascii bs =
     (if list_all (\<lambda>b. b < 0x80) bs then Inr (ascii bs)
      else Inl (UnicodeDecodeError ''ordinal not in range(128)''))"

section \<open>The \<^verbatim>\<open>cryptography\<close> package: public keys and their encodings\<close>

text \<open>
  The script calls \<^verbatim>\<open>public_bytes\<close> of the package's key objects. The encodings
  are standard and deterministic, so they are written out: DER (X.690), PKCS\#1
  \<^verbatim>\<open>RSAPublicKey\<close> (RFC 8017), the uncompressed point of ANSI X9.62/X9.63 (SEC 1,
  2.3.3) and \<^verbatim>\<open>SubjectPublicKeyInfo\<close> (RFC 5280, with the algorithm identifiers of
  RFC 3279, 5480 and 8410).
\<close>

text \<open>The shortest big-endian form of a number (empty for 0), and the form of fixed width.\<close>

fun be_bytes :: "nat \<Rightarrow> bytes" where
  "be_bytes n = (if n = 0 then [] else be_bytes (n div 256) @ [word_of_nat (n mod 256)])"

declare be_bytes.simps [simp del]

primrec i2osp :: "nat \<Rightarrow> nat \<Rightarrow> bytes" where
  "i2osp 0 x = []"
| "i2osp (Suc w) x = i2osp w (x div 256) @ [word_of_nat (x mod 256)]"

definition os2ip :: "bytes \<Rightarrow> nat" where
  "os2ip bs = foldl (\<lambda>acc b. 256 * acc + unat b) 0 bs"

definition der_length :: "nat \<Rightarrow> bytes" where
  "der_length n =
     (if n < 128 then [word_of_nat n]
      else word_of_nat (128 + length (be_bytes n)) # be_bytes n)"

definition der_tlv :: "byte \<Rightarrow> bytes \<Rightarrow> bytes" where
  "der_tlv tag content = tag # der_length (length content) @ content"

definition der_integer :: "nat \<Rightarrow> bytes" where
  "der_integer n =
     der_tlv 0x02
       (case be_bytes n of
          [] \<Rightarrow> [0]
        | b # bs \<Rightarrow> if 0x80 \<le> b then 0 # b # bs else b # bs)"

definition der_sequence :: "bytes \<Rightarrow> bytes" where
  "der_sequence content = der_tlv 0x30 content"

definition der_bit_string :: "bytes \<Rightarrow> bytes" where
  "der_bit_string content = der_tlv 0x03 (0 # content)"

definition der_oid :: "bytes \<Rightarrow> bytes" where
  "der_oid content = der_tlv 0x06 content"

definition der_null :: "bytes" where
  "der_null = [0x05, 0x00]"

text \<open>
  A named curve: \<^verbatim>\<open>pub.curve.name\<close>, \<^verbatim>\<open>pub.curve.key_size\<close> (bits) and the
  content octets of the curve's object identifier. The public key objects that
  \<^verbatim>\<open>Certificate.public_key()\<close> can return; a key of any other algorithm makes it raise
  \<^verbatim>\<open>UnsupportedAlgorithm\<close>.
\<close>

record elliptic_curve =
  curve_name :: string
  curve_key_size :: nat
  curve_oid :: bytes

datatype public_key =
    is_RSAPublicKey: RSAPublicKey nat nat
  | is_EllipticCurvePublicKey: EllipticCurvePublicKey (curve: elliptic_curve) nat nat
  | is_Ed25519PublicKey: Ed25519PublicKey bytes
  | is_Ed448PublicKey: Ed448PublicKey bytes
  | X25519PublicKey bytes
  | X448PublicKey bytes
  | DSAPublicKey nat nat nat nat

text \<open>
  \<^verbatim>\<open>pub.__class__.__name__\<close>, as the package's current (Rust-backed) releases name
  the classes of the key objects. Earlier releases named the OpenSSL-backed classes
  with a leading underscore (\<^verbatim>\<open>_Ed25519PublicKey\<close>); the script reads the name only
  of Ed25519 and Ed448 keys.
\<close>

fun class_name :: "public_key \<Rightarrow> string" where
  "class_name (RSAPublicKey n e) = ''RSAPublicKey''"
| "class_name (EllipticCurvePublicKey c x y) = ''ECPublicKey''"
| "class_name (Ed25519PublicKey k) = ''Ed25519PublicKey''"
| "class_name (Ed448PublicKey k) = ''Ed448PublicKey''"
| "class_name (X25519PublicKey k) = ''X25519PublicKey''"
| "class_name (X448PublicKey k) = ''X448PublicKey''"
| "class_name (DSAPublicKey p q g y) = ''DSAPublicKey''"

text \<open>The width of a field element of the curve, in bytes.\<close>

definition field_width :: "elliptic_curve \<Rightarrow> nat" where
  "field_width c = (curve_key_size c + 7) div 8"

text \<open>
  What the package guarantees of a key it has loaded: RSA numbers are positive, the
  coordinates of a point are field elements and so fit the field width, an Ed25519
  (X25519) key is 32 bytes and an Ed448 (X448) key is 57 (56) bytes.
\<close>

fun valid_public_key :: "public_key \<Rightarrow> bool" where
  "valid_public_key (RSAPublicKey n e) = (0 < n \<and> 0 < e)"
| "valid_public_key (EllipticCurvePublicKey c x y) =
     (x < 256 ^ field_width c \<and> y < 256 ^ field_width c)"
| "valid_public_key (Ed25519PublicKey k) = (length k = 32)"
| "valid_public_key (Ed448PublicKey k) = (length k = 57)"
| "valid_public_key (X25519PublicKey k) = (length k = 32)"
| "valid_public_key (X448PublicKey k) = (length k = 56)"
| "valid_public_key (DSAPublicKey p q g y) = (0 < p \<and> 0 < q \<and> 0 < g \<and> 0 < y)"

definition pkcs1_der :: "nat \<Rightarrow> nat \<Rightarrow> bytes" where
  "pkcs1_der n e = der_sequence (der_integer n @ der_integer e)"

definition x962_uncompressed :: "elliptic_curve \<Rightarrow> nat \<Rightarrow> nat \<Rightarrow> bytes" where
  "x962_uncompressed c x y = 0x04 # i2osp (field_width c) x @ i2osp (field_width c) y"

fun algorithm_identifier :: "public_key \<Rightarrow> bytes" where
  "algorithm_identifier (RSAPublicKey n e) =
     der_sequence (der_oid [0x2A, 0x86, 0x48, 0x86, 0xF7, 0x0D, 0x01, 0x01, 0x01] @ der_null)"
| "algorithm_identifier (EllipticCurvePublicKey c x y) =
     der_sequence (der_oid [0x2A, 0x86, 0x48, 0xCE, 0x3D, 0x02, 0x01] @ der_oid (curve_oid c))"
| "algorithm_identifier (Ed25519PublicKey k) = der_sequence (der_oid [0x2B, 0x65, 0x70])"
| "algorithm_identifier (Ed448PublicKey k) = der_sequence (der_oid [0x2B, 0x65, 0x71])"
| "algorithm_identifier (X25519PublicKey k) = der_sequence (der_oid [0x2B, 0x65, 0x6E])"
| "algorithm_identifier (X448PublicKey k) = der_sequence (der_oid [0x2B, 0x65, 0x6F])"
| "algorithm_identifier (DSAPublicKey p q g y) =
     der_sequence (der_oid [0x2A, 0x86, 0x48, 0xCE, 0x38, 0x04, 0x01]
                   @ der_sequence (der_integer p @ der_integer q @ der_integer g))"

fun subject_public_key :: "public_key \<Rightarrow> bytes" where
  "subject_public_key (RSAPublicKey n e) = pkcs1_der n e"
| "subject_public_key (EllipticCurvePublicKey c x y) = x962_uncompressed c x y"
| "subject_public_key (Ed25519PublicKey k) = k"
| "subject_public_key (Ed448PublicKey k) = k"
| "subject_public_key (X25519PublicKey k) = k"
| "subject_public_key (X448PublicKey k) = k"
| "subject_public_key (DSAPublicKey p q g y) = der_integer y"

definition spki_der :: "public_key \<Rightarrow> bytes" where
  "spki_der pub =
     der_sequence (algorithm_identifier pub @ der_bit_string (subject_public_key pub))"

text \<open>
  \<^verbatim>\<open>pub.public_bytes(encoding, format)\<close>, for the members of \<^verbatim>\<open>Encoding\<close> and
  \<^verbatim>\<open>PublicFormat\<close> that the script names. A combination that the key type does not
  support raises \<^verbatim>\<open>ValueError\<close>.
\<close>

datatype encoding = Encoding_DER | Encoding_X962 | Encoding_Raw

datatype public_format =
    PublicFormat_PKCS1
  | PublicFormat_UncompressedPoint
  | PublicFormat_Raw
  | PublicFormat_SubjectPublicKeyInfo

definition unsupported :: "py_exception" where
  "unsupported = ValueError ''Unsupported encoding and format for this key type''"

definition public_bytes :: "public_key \<Rightarrow> encoding \<Rightarrow> public_format \<Rightarrow> py_exception + bytes" where
  "public_bytes pub enc fmt =
     (if enc = Encoding_DER \<and> fmt = PublicFormat_SubjectPublicKeyInfo then Inr (spki_der pub)
      else if enc = Encoding_DER \<and> fmt = PublicFormat_PKCS1 then
        (case pub of RSAPublicKey n e \<Rightarrow> Inr (pkcs1_der n e) | _ \<Rightarrow> Inl unsupported)
      else if enc = Encoding_X962 \<and> fmt = PublicFormat_UncompressedPoint then
        (case pub of
           EllipticCurvePublicKey c x y \<Rightarrow> Inr (x962_uncompressed c x y)
         | _ \<Rightarrow> Inl unsupported)
      else if enc = Encoding_Raw \<and> fmt = PublicFormat_Raw then
        (case pub of
           Ed25519PublicKey k \<Rightarrow> Inr k
         | Ed448PublicKey k \<Rightarrow> Inr k
         | X25519PublicKey k \<Rightarrow> Inr k
         | X448PublicKey k \<Rightarrow> Inr k
         | _ \<Rightarrow> Inl unsupported)
      else Inl unsupported)"

text \<open>
  \<^verbatim>\<open>x509.load_der_x509_certificate\<close> parses the certificate or raises; the parsed
  certificate's \<^verbatim>\<open>public_key()\<close> returns the key object or raises. The parser is
  the package's and is a parameter here (a field of the world below).
\<close>

datatype certificate = Certificate (cert_public_key: "py_exception + public_key")

section \<open>The network and the \<^verbatim>\<open>ssl\<close> module\<close>

text \<open>
  The peer that answers at a host and port: whether the handshake fails for a reason
  other than certificate validation, whether its chain verifies against the platform's
  default trust store, the host names its leaf certificate is valid for, and the DER
  bytes of that leaf certificate (\<^verbatim>\<open>getpeercert(binary_form=True)\<close>).
\<close>

record peer =
  handshake_error :: "py_exception option"
  chain_trusted :: bool
  valid_for :: "string \<Rightarrow> bool"
  leaf_der :: bytes

datatype verify_mode = CERT_NONE | CERT_REQUIRED

record ssl_context =
  verify_mode :: verify_mode
  check_hostname :: bool

text \<open>\<^verbatim>\<open>ssl.create_default_context()\<close> and \<^verbatim>\<open>ssl._create_unverified_context()\<close>.\<close>

definition create_default_context :: "ssl_context" where
  "create_default_context = \<lparr>verify_mode = CERT_REQUIRED, check_hostname = True\<rparr>"

definition create_unverified_context :: "ssl_context" where
  "create_unverified_context = \<lparr>verify_mode = CERT_NONE, check_hostname = False\<rparr>"

definition wrap_socket :: "ssl_context \<Rightarrow> peer \<Rightarrow> string \<Rightarrow> py_exception + peer" where
  "wrap_socket ctx sock server_hostname =
     (case handshake_error sock of
        Some e \<Rightarrow> Inl e
      | None \<Rightarrow>
          if verify_mode ctx = CERT_REQUIRED \<and> \<not> chain_trusted sock then
            Inl (SSLCertVerificationError
                   ''[SSL: CERTIFICATE_VERIFY_FAILED] certificate verify failed'')
          else if check_hostname ctx \<and> \<not> valid_for sock server_hostname then
            Inl (SSLCertVerificationError
                   ''[SSL: CERTIFICATE_VERIFY_FAILED] certificate verify failed: Hostname mismatch'')
          else Inr sock)"

definition getpeercert :: "peer \<Rightarrow> bytes" where
  "getpeercert ssock = leaf_der ssock"

text \<open>
  What lies outside the script: \<^verbatim>\<open>socket.create_connection((host, port), timeout)\<close>,
  which reaches a peer or raises, the certificate parser, and the encoding of
  \<^verbatim>\<open>sys.stdout\<close>: for a character that is not ASCII, given as its UTF-8 bytes, whether
  that encoding has it (UTF-8 has every character, \<^verbatim>\<open>ascii\<close> has none, \<^verbatim>\<open>cp1252\<close> has
  the dash U+2014 and not the arrow U+2192, \<^verbatim>\<open>cp932\<close> the arrow and not the dash).
\<close>

record world =
  create_connection :: "string \<Rightarrow> int \<Rightarrow> real \<Rightarrow> py_exception + peer"
  load_der_x509_certificate :: "bytes \<Rightarrow> py_exception + certificate"
  stdout_has :: "string \<Rightarrow> bool"

section \<open>The script\<close>

definition sha256_b64 :: "bytes \<Rightarrow> py_exception + string" where
  "sha256_b64 data = decode_ascii (b64encode (sha256 data))"

definition get_leaf_cert_der ::
  "world \<Rightarrow> string \<Rightarrow> int \<Rightarrow> real \<Rightarrow> bool \<Rightarrow> py_exception + bytes" where
  "get_leaf_cert_der w host port timeout insecure =
     (let ctx = (if insecure then create_unverified_context else create_default_context)
      in case create_connection w host port timeout of
           Inl e \<Rightarrow> Inl e
         | Inr sock \<Rightarrow>
             (case wrap_socket ctx sock host of
                Inl e \<Rightarrow> Inl e
              | Inr ssock \<Rightarrow> Inr (getpeercert ssock)))"

definition fallback_label :: "string" where
  "fallback_label = ''Unknown type '' @ [CHR 0xE2, CHR 0x86, CHR 0x92] @ '' SPKI fallback''"

definition export_raw_public_key ::
  "world \<Rightarrow> bytes \<Rightarrow> py_exception + (bytes \<times> bytes \<times> string)" where
  "export_raw_public_key w cert_der =
     (case load_der_x509_certificate w cert_der of
        Inl e \<Rightarrow> Inl e
      | Inr cert \<Rightarrow>
     (case cert_public_key cert of
        Inl e \<Rightarrow> Inl e
      | Inr pub \<Rightarrow>
     (case
        (if is_RSAPublicKey pub then
           (case public_bytes pub Encoding_DER PublicFormat_PKCS1 of
              Inl e \<Rightarrow> Inl e
            | Inr raw \<Rightarrow> Inr (raw, ''RSA (PKCS#1 DER)''))
         else if is_EllipticCurvePublicKey pub then
           (case public_bytes pub Encoding_X962 PublicFormat_UncompressedPoint of
              Inl e \<Rightarrow> Inl e
            | Inr raw \<Rightarrow>
                Inr (raw, ''EC '' @ curve_name (curve pub) @ '' (X9.63 uncompressed)''))
         else if is_Ed25519PublicKey pub \<or> is_Ed448PublicKey pub then
           (case public_bytes pub Encoding_Raw PublicFormat_Raw of
              Inl e \<Rightarrow> Inl e
            | Inr raw \<Rightarrow> Inr (raw, class_name pub @ '' (raw)''))
         else
           (case public_bytes pub Encoding_DER PublicFormat_SubjectPublicKeyInfo of
              Inl e \<Rightarrow> Inl e
            | Inr raw \<Rightarrow> Inr (raw, fallback_label)))
      of
        Inl e \<Rightarrow> Inl e
      | Inr (raw, ktype) \<Rightarrow>
     (case public_bytes pub Encoding_DER PublicFormat_SubjectPublicKeyInfo of
        Inl e \<Rightarrow> Inl e
      | Inr spki \<Rightarrow> Inr (raw, spki, ktype)))))"

text \<open>
  The namespace that \<^verbatim>\<open>ap.parse_args()\<close> returns. \<^verbatim>\<open>argparse\<close> recognises the
  options on the command line; from the options it has recognised, the namespace is
  the declared defaults (port 443, timeout 5.0, both flags off) overwritten in order:
  a \<^verbatim>\<open>store_true\<close> flag is on exactly when its option was passed.
\<close>

record args =
  server :: string
  port :: int
  timeout :: real
  insecure :: bool
  print_key :: bool

datatype cli_option = Opt_port int | Opt_timeout real | Opt_insecure | Opt_print_key

fun store :: "args \<Rightarrow> cli_option \<Rightarrow> args" where
  "store a (Opt_port n) = a\<lparr>port := n\<rparr>"
| "store a (Opt_timeout t) = a\<lparr>timeout := t\<rparr>"
| "store a Opt_insecure = a\<lparr>insecure := True\<rparr>"
| "store a Opt_print_key = a\<lparr>print_key := True\<rparr>"

definition parse_args :: "string \<Rightarrow> cli_option list \<Rightarrow> args" where
  "parse_args srv opts =
     foldl store \<lparr>server = srv, port = 443, timeout = 5, insecure = False, print_key = False\<rparr> opts"

text \<open>
  A text is cut into its characters at the lead bytes of UTF-8. \<^verbatim>\<open>sys.stdout\<close> encodes
  with the error handler \<^verbatim>\<open>strict\<close>: a text can be written when each of its characters
  is ASCII or is in the encoding of the stream.
\<close>

definition is_ascii :: "char \<Rightarrow> bool" where
  "is_ascii c = (of_char c < (0x80 :: nat))"

definition utf8_tail :: "char \<Rightarrow> nat" where
  "utf8_tail c =
     (if of_char c < (0xC0 :: nat) then 0
      else if of_char c < (0xE0 :: nat) then 1
      else if of_char c < (0xF0 :: nat) then 2
      else 3)"

fun utf8_chars :: "string \<Rightarrow> string list" where
  "utf8_chars [] = []"
| "utf8_chars (c # cs) = (c # take (utf8_tail c) cs) # utf8_chars (drop (utf8_tail c) cs)"

definition encodable :: "world \<Rightarrow> string \<Rightarrow> bool" where
  "encodable w s = list_all (\<lambda>c. list_all is_ascii c \<or> stdout_has w c) (utf8_chars s)"

text \<open>
  A run of the script: what the script wrote to the two streams and how it ended. An
  exception that nothing catches ends the run: the interpreter writes a traceback to
  the error stream, after what the script wrote there, and the exit status is 1.

  \<^verbatim>\<open>print(s)\<close> encodes \<open>s\<close> for standard output before it writes: it appends \<open>s\<close> and a
  line feed, or raises \<^verbatim>\<open>UnicodeEncodeError\<close> and writes nothing.
  \<^verbatim>\<open>print(s, file=sys.stderr)\<close> does not raise: the error stream replaces what it cannot
  encode (\<^verbatim>\<open>backslashreplace\<close>).
\<close>

datatype ending = Exit int | Traceback py_exception


record process =
  stdout :: string
  stderr :: string
  ending :: ending

definition print :: "world \<Rightarrow> string \<Rightarrow> string \<Rightarrow> py_exception + string" where
  "print w stream s =
     (if encodable w s then Inr (stream @ s @ [CHR 0x0A])
      else Inl (UnicodeEncodeError ''codec cannot encode character''))"

definition print_stderr :: "string \<Rightarrow> string \<Rightarrow> string" where
  "print_stderr stream s = stream @ s @ [CHR 0x0A]"

definition key_header :: "string" where
  "key_header =
     [CHR 0x0A] @ ''Raw public key (Base64) '' @ [CHR 0xE2, CHR 0x80, CHR 0x94]
       @ '' sensitive, do not log in prod:''"

text \<open>The body of the \<^verbatim>\<open>try\<close> statement: fetch the certificate, then re-encode its key.\<close>

definition try_body :: "world \<Rightarrow> args \<Rightarrow> py_exception + (bytes \<times> bytes \<times> string)" where
  "try_body w a =
     (case get_leaf_cert_der w (server a) (port a) (timeout a) (insecure a) of
        Inl e \<Rightarrow> Inl e
      | Inr cert_der \<Rightarrow> export_raw_public_key w cert_der)"

definition main :: "world \<Rightarrow> args \<Rightarrow> process" where
  "main w a =
     (case try_body w a of
        Inl e \<Rightarrow>
          \<lparr>stdout = [], stderr = print_stderr [] (''Error: '' @ str_of e), ending = Exit 1\<rparr>
      | Inr (raw, spki, ktype) \<Rightarrow>
     (case print w [] (''Key format (raw export): '' @ ktype) of
        Inl e \<Rightarrow> \<lparr>stdout = [], stderr = [], ending = Traceback e\<rparr>
      | Inr out1 \<Rightarrow>
     (case sha256_b64 raw of
        Inl e \<Rightarrow> \<lparr>stdout = out1, stderr = [], ending = Traceback e\<rparr>
      | Inr pin \<Rightarrow>
     (case print w out1 (''PIN (RAW key)  SHA256 Base64: '' @ pin @ ''   <-- use this KEY'') of
        Inl e \<Rightarrow> \<lparr>stdout = out1, stderr = [], ending = Traceback e\<rparr>
      | Inr out2 \<Rightarrow>
          if print_key a then
            (case print w out2 key_header of
               Inl e \<Rightarrow> \<lparr>stdout = out2, stderr = [], ending = Traceback e\<rparr>
             | Inr out3 \<Rightarrow>
            (case decode_ascii (b64encode raw) of
               Inl e \<Rightarrow> \<lparr>stdout = out3, stderr = [], ending = Traceback e\<rparr>
             | Inr k \<Rightarrow>
            (case print w out3 k of
               Inl e \<Rightarrow> \<lparr>stdout = out3, stderr = [], ending = Traceback e\<rparr>
             | Inr out4 \<Rightarrow> \<lparr>stdout = out4, stderr = [], ending = Exit 0\<rparr>)))
          else \<lparr>stdout = out2, stderr = [], ending = Exit 0\<rparr>))))"

section \<open>Reading an encoding back\<close>

text \<open>
  A reader of DER, written from X.690 and independent of the encoder above: the length
  octets (short form below 128, long form with a count of length octets), a
  tag-length-value triple with an expected tag, and the PKCS\#1 \<^verbatim>\<open>RSAPublicKey\<close>, a
  \<^verbatim>\<open>SEQUENCE\<close> of exactly two \<^verbatim>\<open>INTEGER\<close>s with nothing after them.
\<close>

definition der_read_length :: "bytes \<Rightarrow> (nat \<times> bytes) option" where
  "der_read_length bs =
     (case bs of
        [] \<Rightarrow> None
      | b # rest \<Rightarrow>
          if b < 0x80 then Some (unat b, rest)
          else (let k = unat b - 128
                in if length rest < k then None
                   else Some (os2ip (take k rest), drop k rest)))"

definition der_read_tlv :: "byte \<Rightarrow> bytes \<Rightarrow> (bytes \<times> bytes) option" where
  "der_read_tlv tag bs =
     (case bs of
        [] \<Rightarrow> None
      | t # rest \<Rightarrow>
          if t \<noteq> tag then None
          else (case der_read_length rest of
                  None \<Rightarrow> None
                | Some (n, rest') \<Rightarrow>
                    if length rest' < n then None else Some (take n rest', drop n rest')))"

definition read_rsa_public_key :: "bytes \<Rightarrow> (nat \<times> nat) option" where
  "read_rsa_public_key bs =
     (case der_read_tlv 0x30 bs of
        Some (content, []) \<Rightarrow>
          (case der_read_tlv 0x02 content of
             Some (n, rest) \<Rightarrow>
               (case der_read_tlv 0x02 rest of
                  Some (e, []) \<Rightarrow> Some (os2ip n, os2ip e)
                | _ \<Rightarrow> None)
           | None \<Rightarrow> None)
      | _ \<Rightarrow> None)"

section \<open>Reading the output, and worlds to run the script in\<close>

text \<open>The lines of a text, as \<^verbatim>\<open>str.splitlines\<close> cuts them at line feeds.\<close>

fun lines_of :: "string \<Rightarrow> string list" where
  "lines_of [] = []"
| "lines_of (c # cs) =
     (if c = CHR 0x0A then [] # lines_of cs
      else (case lines_of cs of [] \<Rightarrow> [[c]] | l # ls \<Rightarrow> (c # l) # ls))"

text \<open>
  The world in which every connection attempt has the same outcome, every parse gives
  the same result and standard output is UTF-8; and a world with its standard output
  turned to \<^verbatim>\<open>ascii\<close>.
\<close>

definition constant_world :: "py_exception + peer \<Rightarrow> py_exception + certificate \<Rightarrow> world" where
  "constant_world conn parsed =
     \<lparr>create_connection = (\<lambda>host port timeout. conn),
      load_der_x509_certificate = (\<lambda>cert_der. parsed),
      stdout_has = (\<lambda>c. True)\<rparr>"

definition ascii_stdout :: "world \<Rightarrow> world" where
  "ascii_stdout w = w\<lparr>stdout_has := (\<lambda>c. False)\<rparr>"

definition plain_peer :: "bool \<Rightarrow> bytes \<Rightarrow> peer" where
  "plain_peer trusted der =
     \<lparr>handshake_error = None, chain_trusted = trusted, valid_for = (\<lambda>host. trusted),
      leaf_der = der\<rparr>"

definition secp256r1 :: "elliptic_curve" where
  "secp256r1 =
     \<lparr>curve_name = ''secp256r1'', curve_key_size = 256,
      curve_oid = [0x2A, 0x86, 0x48, 0xCE, 0x3D, 0x03, 0x01, 0x07]\<rparr>"

text \<open>The world in which a trusted server presents a certificate with the given key.\<close>

definition server_presenting :: "public_key \<Rightarrow> world" where
  "server_presenting pub =
     constant_world (Inr (plain_peer True [0x30, 0x00])) (Inr (Certificate (Inr pub)))"


section \<open>Facts about the encodings\<close>

lemma b64_table_length: "length b64_table = 64"
  by (simp add: b64_table_def)

lemma b64_table_chars: "list_all (\<lambda>b. b < 0x80 \<and> b \<noteq> 0x0A) b64_table"
  by (simp add: b64_table_def)

lemma b64_char_in_table: "b64_char i \<in> set b64_table"
proof -
  have "i AND 0x3F \<le> 0x3F" by (rule word_and_le1)
  then have "unat (i AND 0x3F) < 64"
    by (simp add: word_le_nat_alt)
  then show ?thesis
    by (simp add: b64_char_def b64_table_length)
qed

lemma b64_char_ok: "b64_char i < 0x80 \<and> b64_char i \<noteq> 0x0A"
  using b64_char_in_table [of i] b64_table_chars by (auto simp: list_all_iff)

lemma b64encode_chars: "list_all (\<lambda>b. b < 0x80 \<and> b \<noteq> 0x0A) (b64encode bs)"
  by (induction bs rule: b64encode.induct) (simp_all add: b64_char_ok)

lemma b64encode_length: "length (b64encode bs) = 4 * ((length bs + 2) div 3)"
proof (induction bs rule: b64encode.induct)
  case (1 a b c rest)
  have "(length (a # b # c # rest) + 2) div 3 = Suc ((length rest + 2) div 3)"
    by simp
  with 1 show ?case by simp
qed simp_all

lemma decode_ascii_b64encode: "decode_ascii (b64encode bs) = Inr (ascii (b64encode bs))"
  using b64encode_chars [of bs] by (auto simp: decode_ascii_def list_all_iff)

lemma sha256_b64_returns: "sha256_b64 d = Inr (ascii (b64encode (sha256 d)))"
  by (simp add: sha256_b64_def decode_ascii_b64encode)

lemma char_of_unat_newline: "char_of (unat (b::byte)) = CHR 0x0A \<Longrightarrow> b = 0x0A"
proof -
  assume h: "char_of (unat b) = CHR 0x0A"
  have "(of_char (char_of (unat b)) :: nat) = of_char (CHR 0x0A)"
    by (simp only: h)
  then have "unat b mod 256 = 10"
    by (simp add: of_char_of)
  moreover have "unat b < 256"
    using unsigned_less [of b, where ?'a = nat] by simp
  ultimately have "unat b = unat (0x0A :: byte)" by simp
  then show ?thesis by (simp only: word_unat_eq_iff)
qed

lemma ascii_no_newline:
  "list_all (\<lambda>b. b < 0x80 \<and> b \<noteq> 0x0A) bs \<Longrightarrow> CHR 0x0A \<notin> set (ascii bs)"
proof
  assume ok: "list_all (\<lambda>b. b < 0x80 \<and> b \<noteq> 0x0A) bs" and "CHR 0x0A \<in> set (ascii bs)"
  then obtain b where "b \<in> set bs" and "char_of (unat b) = CHR 0x0A"
    by (auto simp: ascii_def)
  with ok show False
    by (auto simp: list_all_iff dest!: char_of_unat_newline)
qed

lemma length_i2osp: "length (i2osp w x) = w"
  by (induction w arbitrary: x) simp_all

lemma os2ip_append: "os2ip (bs @ [b]) = 256 * os2ip bs + unat b"
  by (simp add: os2ip_def)

lemma os2ip_i2osp: "os2ip (i2osp w x) = x mod 256 ^ w"
proof (induction w arbitrary: x)
  case 0
  then show ?case by (simp add: os2ip_def)
next
  case (Suc w)
  have "unat (word_of_nat (x mod 256) :: byte) = x mod 256"
    by (simp add: unat_of_nat)
  then show ?case
    using Suc [of "x div 256"]
    by (simp add: os2ip_append mod_mult2_eq)
qed

lemma length_be_bytes: "x < 256 ^ w \<Longrightarrow> length (be_bytes x) \<le> w"
proof (induction w arbitrary: x)
  case 0
  then show ?case by (simp add: be_bytes.simps)
next
  case (Suc w)
  show ?case
  proof (cases "x = 0")
    case True
    then show ?thesis by (simp add: be_bytes.simps)
  next
    case False
    from Suc.prems have "x div 256 < 256 ^ w"
      by (simp add: less_mult_imp_div_less mult.commute)
    from Suc.IH [OF this] False show ?thesis
      by (subst be_bytes.simps) simp
  qed
qed

lemma i2osp_zero: "i2osp w 0 = replicate w 0"
  by (induction w) (simp_all add: replicate_append_same)

lemma i2osp_padded:
  "x < 256 ^ w \<Longrightarrow> i2osp w x = replicate (w - length (be_bytes x)) 0 @ be_bytes x"
proof (induction w arbitrary: x)
  case 0
  then show ?case by (simp add: be_bytes.simps)
next
  case (Suc w)
  show ?case
  proof (cases "x = 0")
    case True
    then show ?thesis
      using i2osp_zero [of "Suc w"] by (simp add: be_bytes.simps del: i2osp.simps)
  next
    case False
    from Suc.prems have lt: "x div 256 < 256 ^ w"
      by (simp add: less_mult_imp_div_less mult.commute)
    have be: "be_bytes x = be_bytes (x div 256) @ [word_of_nat (x mod 256)]"
      using False by (subst be_bytes.simps) simp
    have "length (be_bytes (x div 256)) \<le> w"
      by (rule length_be_bytes [OF lt])
    then have "Suc w - length (be_bytes x) = w - length (be_bytes (x div 256))"
      by (simp add: be)
    then show ?thesis
      using Suc.IH [OF lt] by (simp add: be)
  qed
qed

lemma der_tlv_longer: "length content < length (der_tlv tag content)"
  by (simp add: der_tlv_def)

lemma spki_der_longer: "length (subject_public_key pub) < length (spki_der pub)"
proof -
  have "length (subject_public_key pub) < length (der_bit_string (subject_public_key pub))"
    using der_tlv_longer [of "0 # subject_public_key pub" "0x03"]
    by (simp add: der_bit_string_def)
  also have "\<dots> \<le> length (algorithm_identifier pub @ der_bit_string (subject_public_key pub))"
    by simp
  also have "\<dots> < length (spki_der pub)"
    unfolding spki_der_def der_sequence_def by (rule der_tlv_longer)
  finally show ?thesis .
qed

lemma export_raw_public_key_eq:
  assumes "load_der_x509_certificate w cert_der = Inr cert"
    and "cert_public_key cert = Inr pub"
  shows "export_raw_public_key w cert_der =
           Inr (case pub of
                  RSAPublicKey n e \<Rightarrow> (pkcs1_der n e, spki_der pub, ''RSA (PKCS#1 DER)'')
                | EllipticCurvePublicKey c x y \<Rightarrow>
                    (x962_uncompressed c x y, spki_der pub,
                     ''EC '' @ curve_name c @ '' (X9.63 uncompressed)'')
                | Ed25519PublicKey k \<Rightarrow> (k, spki_der pub, class_name pub @ '' (raw)'')
                | Ed448PublicKey k \<Rightarrow> (k, spki_der pub, class_name pub @ '' (raw)'')
                | _ \<Rightarrow> (spki_der pub, spki_der pub, fallback_label))"
  using assms by (cases pub) (simp_all add: export_raw_public_key_def public_bytes_def)

lemma lines_of_line:
  "CHR 0x0A \<notin> set l \<Longrightarrow> lines_of (l @ CHR 0x0A # rest) = l # lines_of rest"
  by (induction l) auto


lemma insecure_foldl:
  "insecure (foldl store a opts) = (insecure a \<or> Opt_insecure \<in> set opts)"
proof (induction opts arbitrary: a)
  case Nil
  then show ?case by simp
next
  case (Cons o1 opts)
  then show ?case by (cases o1) auto
qed


lemma insecure_parse_args: "insecure (parse_args srv opts) = (Opt_insecure \<in> set opts)"
  by (simp add: parse_args_def insecure_foldl)

lemma try_body_eq:
  "get_leaf_cert_der w (server a) (port a) (timeout a) (insecure a) = Inr cert_der \<Longrightarrow>
   try_body w a = export_raw_public_key w cert_der"
  by (simp add: try_body_def)

lemma try_body_fetch_fails:
  "get_leaf_cert_der w (server a) (port a) (timeout a) (insecure a) = Inl e \<Longrightarrow>
   try_body w a = Inl e"
  by (simp add: try_body_def)

lemma ascii_b64_no_newline: "CHR 0x0A \<notin> set (ascii (b64encode bs))"
  by (rule ascii_no_newline) (rule b64encode_chars)

lemma be_bytes_C35F: "be_bytes 0xC35F = [0xC3, 0x5F]"
  by (simp add: be_bytes.simps)

lemma be_bytes_65537: "be_bytes 65537 = [0x01, 0x00, 0x01]"
  by (simp add: be_bytes.simps)

lemma pkcs1_der_example:
  "der_sequence (der_integer 0xC35F @ der_integer 65537)
     = [0x30, 0x0A, 0x02, 0x03, 0x00, 0xC3, 0x5F, 0x02, 0x03, 0x01, 0x00, 0x01]"
  by (simp add: der_sequence_def der_integer_def der_tlv_def der_length_def
        be_bytes_C35F be_bytes_65537 word_le_nat_alt)

lemma world_parses:
  "load_der_x509_certificate (server_presenting pub) d = Inr (Certificate (Inr pub))"
  by (simp add: server_presenting_def constant_world_def)

lemma world_fetches:
  "get_leaf_cert_der (server_presenting pub) host p t ins = Inr [0x30, 0x00]"
  by (simp add: server_presenting_def constant_world_def plain_peer_def get_leaf_cert_der_def
        wrap_socket_def create_default_context_def create_unverified_context_def
        getpeercert_def)

lemma os2ip_be_bytes: "os2ip (be_bytes n) = n"
proof (induction n rule: be_bytes.induct)
  case (1 n)
  show ?case
  proof (cases "n = 0")
    case True
    then show ?thesis by (simp add: be_bytes.simps os2ip_def)
  next
    case False
    have "unat (word_of_nat (n mod 256) :: byte) = n mod 256"
      by (simp add: unat_of_nat)
    with False 1 show ?thesis
      by (subst be_bytes.simps) (simp add: os2ip_append)
  qed
qed

lemma os2ip_zero_cons: "os2ip (0 # bs) = os2ip bs"
  by (simp add: os2ip_def)

lemma der_read_length_der_length:
  assumes "n < 256 ^ 126"
  shows "der_read_length (der_length n @ rest) = Some (n, rest)"
proof (cases "n < 128")
  case True
  then have "unat (word_of_nat n :: byte) = n"
    by (simp add: unat_of_nat)
  moreover from True have "(word_of_nat n :: byte) < 0x80"
    by (simp add: word_less_nat_alt unat_of_nat)
  ultimately show ?thesis
    using True by (simp add: der_read_length_def der_length_def)
next
  case False
  let ?k = "length (be_bytes n)"
  have k: "?k \<le> 126" using assms by (rule length_be_bytes)
  then have u: "unat (word_of_nat (128 + ?k) :: byte) = 128 + ?k"
    by (simp add: unat_of_nat del: of_nat_add)
  then have ge: "\<not> (word_of_nat (128 + ?k) :: byte) < 0x80"
    by (simp add: word_less_nat_alt)
  show ?thesis
    using False ge u
    by (simp add: der_read_length_def der_length_def os2ip_be_bytes)
qed

lemma der_read_tlv_der_tlv:
  assumes "length content < 256 ^ 126"
  shows "der_read_tlv tag (der_tlv tag content @ rest) = Some (content, rest)"
  using der_read_length_der_length [OF assms, of "content @ rest"]
  by (simp add: der_read_tlv_def der_tlv_def)

lemma os2ip_der_integer_body:
  "os2ip (case be_bytes n of [] \<Rightarrow> [0] | b # bs \<Rightarrow> if 0x80 \<le> b then 0 # b # bs else b # bs) = n"
proof (cases "be_bytes n")
  case Nil
  with os2ip_be_bytes [of n] show ?thesis by (simp add: os2ip_def)
next
  case (Cons b bs)
  with os2ip_be_bytes [of n] show ?thesis by (simp add: os2ip_zero_cons)
qed

lemma length_der_integer_body:
  "length (case be_bytes n of [] \<Rightarrow> [0 :: byte] | b # bs \<Rightarrow> if 0x80 \<le> b then 0 # b # bs else b # bs)
     \<le> Suc (length (be_bytes n))"
  by (cases "be_bytes n") simp_all

lemma der_tlv_length_le: "length (der_tlv tag content) \<le> 2 + length (be_bytes (length content)) + length content"
  by (simp add: der_tlv_def der_length_def)

lemma read_rsa_public_key_pkcs1_der:
  assumes n: "n < 256 ^ 8192" and e: "e < 256 ^ 8192"
  shows "read_rsa_public_key (pkcs1_der n e) = Some (n, e)"
proof -
  let ?bn = "case be_bytes n of [] \<Rightarrow> [0 :: byte] | b # bs \<Rightarrow> if 0x80 \<le> b then 0 # b # bs else b # bs"
  let ?be = "case be_bytes e of [] \<Rightarrow> [0 :: byte] | b # bs \<Rightarrow> if 0x80 \<le> b then 0 # b # bs else b # bs"
  have ln: "length ?bn \<le> 8193"
    using length_der_integer_body [of n] length_be_bytes [OF n] by simp
  have le: "length ?be \<le> 8193"
    using length_der_integer_body [of e] length_be_bytes [OF e] by simp
  have small: "k \<le> 20000 \<Longrightarrow> k < 256 ^ 126" for k :: nat
  proof -
    assume "k \<le> 20000"
    also have "(20000::nat) < 256 ^ 2" by simp
    also have "(256::nat) ^ 2 \<le> 256 ^ 126" by (rule power_increasing) simp_all
    finally show ?thesis .
  qed
  have rn: "der_read_tlv 0x02 (der_integer n @ rest) = Some (?bn, rest)" for rest
    unfolding der_integer_def using ln by (intro der_read_tlv_der_tlv small) simp
  have re: "der_read_tlv 0x02 (der_integer e @ rest) = Some (?be, rest)" for rest
    unfolding der_integer_def using le by (intro der_read_tlv_der_tlv small) simp
  have lbn: "length (be_bytes (length ?bn)) \<le> 2"
  proof -
    have "length ?bn < 256 ^ 2" using ln by simp
    then show ?thesis by (rule length_be_bytes)
  qed
  have lbe: "length (be_bytes (length ?be)) \<le> 2"
  proof -
    have "length ?be < 256 ^ 2" using le by simp
    then show ?thesis by (rule length_be_bytes)
  qed
  have "length (der_integer n) \<le> 8197"
    using der_tlv_length_le [of "0x02" ?bn] ln lbn by (simp add: der_integer_def)
  moreover have "length (der_integer e) \<le> 8197"
    using der_tlv_length_le [of "0x02" ?be] le lbe by (simp add: der_integer_def)
  ultimately have "length (der_integer n @ der_integer e) \<le> 20000" by simp
  then have "length (der_integer n @ der_integer e) < 256 ^ 126" by (rule small)
  from der_read_tlv_der_tlv [OF this, of "0x30" "[]"]
  have seq: "der_read_tlv 0x30 (pkcs1_der n e) = Some (der_integer n @ der_integer e, [])"
    by (simp add: pkcs1_der_def der_sequence_def)
  have re': "der_read_tlv 0x02 (der_integer e) = Some (?be, [])"
    using re [of "[]"] by simp
  show ?thesis
    by (simp add: read_rsa_public_key_def seq rn re' os2ip_der_integer_body)
qed

lemma small_rsa_numbers: "k < 256 ^ 3 \<Longrightarrow> (k::nat) < 256 ^ 8192"
proof -
  assume "k < 256 ^ 3"
  also have "(256::nat) ^ 3 \<le> 256 ^ 8192" by (rule power_increasing) simp_all
  finally show ?thesis .
qed

subsection \<open>Printing and the encoding of standard output\<close>

lemma utf8_tail_ascii: "is_ascii c \<Longrightarrow> utf8_tail c = 0"
  by (simp add: is_ascii_def utf8_tail_def)

lemma utf8_chars_ascii_append:
  "list_all is_ascii p \<Longrightarrow> utf8_chars (p @ s) = map (\<lambda>c. [c]) p @ utf8_chars s"
  by (induction p) (simp_all add: utf8_tail_ascii)

lemma encodable_ascii_append: "list_all is_ascii p \<Longrightarrow> encodable w (p @ s) = encodable w s"
  by (auto simp: encodable_def utf8_chars_ascii_append list_all_iff)

lemma encodable_ascii: "list_all is_ascii s \<Longrightarrow> encodable w s"
  using encodable_ascii_append [of s w "[]"] by (simp add: encodable_def)

lemma encodable_three_bytes:
  "utf8_tail c = 2 \<Longrightarrow> \<not> is_ascii c \<Longrightarrow>
   encodable w (c # c1 # c2 # s) = (stdout_has w [c, c1, c2] \<and> encodable w s)"
  by (simp add: encodable_def)

lemma utf8_tail_E2: "utf8_tail (CHR 0xE2) = 2" and not_ascii_E2: "\<not> is_ascii (CHR 0xE2)"
  by (simp_all add: utf8_tail_def is_ascii_def)

lemma is_ascii_ascii: "list_all (\<lambda>b. b < 0x80) bs \<Longrightarrow> list_all is_ascii (ascii bs)"
proof -
  have "is_ascii (char_of (unat b))" if "b < 0x80" for b :: byte
  proof -
    from that have "unat b < 128" by (simp add: word_less_nat_alt)
    then show ?thesis by (simp add: is_ascii_def)
  qed
  then show "list_all (\<lambda>b. b < 0x80) bs \<Longrightarrow> list_all is_ascii (ascii bs)"
    by (simp add: ascii_def list_all_iff)
qed

lemma is_ascii_b64: "list_all is_ascii (ascii (b64encode bs))"
proof -
  have "list_all (\<lambda>b. b < 0x80) (b64encode bs)"
    using b64encode_chars [of bs] by (simp add: list_all_iff)
  then show ?thesis by (rule is_ascii_ascii)
qed

lemma encodable_format_line:
  "encodable w (''Key format (raw export): '' @ ktype) = encodable w ktype"
  by (rule encodable_ascii_append) (simp add: is_ascii_def)

lemma encodable_pin_line:
  "encodable w (''PIN (RAW key)  SHA256 Base64: '' @ ascii (b64encode bs) @ ''   <-- use this KEY'')"
  by (rule encodable_ascii) (simp add: is_ascii_b64, simp add: is_ascii_def)

lemma encodable_b64: "encodable w (ascii (b64encode bs))"
  by (rule encodable_ascii) (rule is_ascii_b64)

lemma encodable_key_header: "encodable w key_header = stdout_has w [CHR 0xE2, CHR 0x80, CHR 0x94]"
proof -
  have a: "list_all is_ascii (CHR 0x0A # ''Raw public key (Base64) '')"
    by (simp add: is_ascii_def)
  have b: "encodable w '' sensitive, do not log in prod:''"
    by (rule encodable_ascii) (simp add: is_ascii_def)
  have eq: "key_header = (CHR 0x0A # ''Raw public key (Base64) '')
           @ (CHR 0xE2 # CHR 0x80 # CHR 0x94 # '' sensitive, do not log in prod:'')"
    by (simp add: key_header_def)
  have "encodable w key_header
           = encodable w (CHR 0xE2 # CHR 0x80 # CHR 0x94 # '' sensitive, do not log in prod:'')"
    unfolding eq by (rule encodable_ascii_append [OF a])
  also have "\<dots> = (stdout_has w [CHR 0xE2, CHR 0x80, CHR 0x94]
                      \<and> encodable w '' sensitive, do not log in prod:'')"
    by (rule encodable_three_bytes [OF utf8_tail_E2 not_ascii_E2])
  finally show ?thesis using b by simp
qed

lemma encodable_fallback_label:
  "encodable w fallback_label = stdout_has w [CHR 0xE2, CHR 0x86, CHR 0x92]"
proof -
  have a: "list_all is_ascii ''Unknown type ''"
    by (simp add: is_ascii_def)
  have b: "encodable w '' SPKI fallback''"
    by (rule encodable_ascii) (simp add: is_ascii_def)
  have eq: "fallback_label
              = ''Unknown type '' @ (CHR 0xE2 # CHR 0x86 # CHR 0x92 # '' SPKI fallback'')"
    by (simp add: fallback_label_def)
  have "encodable w fallback_label
           = encodable w (CHR 0xE2 # CHR 0x86 # CHR 0x92 # '' SPKI fallback'')"
    unfolding eq by (rule encodable_ascii_append [OF a])
  also have "\<dots> = (stdout_has w [CHR 0xE2, CHR 0x86, CHR 0x92] \<and> encodable w '' SPKI fallback'')"
    by (rule encodable_three_bytes [OF utf8_tail_E2 not_ascii_E2])
  finally show ?thesis using b by simp
qed

lemma print_encodable: "encodable w s \<Longrightarrow> print w out s = Inr (out @ s @ [CHR 0x0A])"
  by (simp add: print_def)

lemma print_not_encodable:
  "\<not> encodable w s \<Longrightarrow> print w out s = Inl (UnicodeEncodeError ''codec cannot encode character'')"
  by (simp add: print_def)

lemma main_failure:
  "try_body w a = Inl e \<Longrightarrow>
   main w a = \<lparr>stdout = [], stderr = ''Error: '' @ str_of e @ [CHR 0x0A], ending = Exit 1\<rparr>"
  by (simp add: main_def print_stderr_def)

lemma main_success:
  assumes tb: "try_body w a = Inr (raw, spki, ktype)"
    and enc: "encodable w ktype"
    and hdr: "print_key a \<longrightarrow> stdout_has w [CHR 0xE2, CHR 0x80, CHR 0x94]"
  shows "main w a =
     \<lparr>stdout = ''Key format (raw export): '' @ ktype @ [CHR 0x0A]
                @ ''PIN (RAW key)  SHA256 Base64: '' @ ascii (b64encode (sha256 raw))
                @ ''   <-- use this KEY'' @ [CHR 0x0A]
                @ (if print_key a
                   then key_header @ [CHR 0x0A] @ ascii (b64encode raw) @ [CHR 0x0A]
                   else []),
      stderr = [], ending = Exit 0\<rparr>"
proof -
  have e1: "encodable w (''Key format (raw export): '' @ ktype)"
    using enc by (simp only: encodable_format_line)
  note p1 = print_encodable [OF e1]
  note p2 = print_encodable [OF encodable_pin_line]
  note p4 = print_encodable [OF encodable_b64]
  show ?thesis
  proof (cases "print_key a")
    case True
    with hdr have "encodable w key_header" by (simp only: encodable_key_header)
    note p3 = print_encodable [OF this]
    show ?thesis
      by (simp only: main_def tb sum.case prod.case p1 p2 p3 p4 sha256_b64_returns
            decode_ascii_b64encode True if_True) simp
  next
    case False
    show ?thesis
      by (simp only: main_def tb sum.case prod.case p1 p2 sha256_b64_returns False if_False)
        simp
  qed
qed

lemma main_label_not_encodable:
  assumes tb: "try_body w a = Inr (raw, spki, ktype)"
    and enc: "\<not> encodable w ktype"
  shows "main w a = \<lparr>stdout = [], stderr = [],
                ending = Traceback (UnicodeEncodeError ''codec cannot encode character'')\<rparr>"
proof -
  have e1: "\<not> encodable w (''Key format (raw export): '' @ ktype)"
    using enc by (simp only: encodable_format_line simp_thms)
  note p1 = print_not_encodable [OF e1]
  show ?thesis
    by (simp only: main_def tb sum.case prod.case p1)
qed

lemma main_header_not_encodable:
  assumes tb: "try_body w a = Inr (raw, spki, ktype)"
    and enc: "encodable w ktype"
    and pk: "print_key a"
    and hdr: "\<not> stdout_has w [CHR 0xE2, CHR 0x80, CHR 0x94]"
  shows "main w a =
     \<lparr>stdout = ''Key format (raw export): '' @ ktype @ [CHR 0x0A]
                @ ''PIN (RAW key)  SHA256 Base64: '' @ ascii (b64encode (sha256 raw))
                @ ''   <-- use this KEY'' @ [CHR 0x0A],
      stderr = [],
      ending = Traceback (UnicodeEncodeError ''codec cannot encode character'')\<rparr>"
proof -
  have e1: "encodable w (''Key format (raw export): '' @ ktype)"
    using enc by (simp only: encodable_format_line)
  note p1 = print_encodable [OF e1]
  note p2 = print_encodable [OF encodable_pin_line]
  from hdr have "\<not> encodable w key_header" by (simp only: encodable_key_header simp_thms)
  note p3 = print_not_encodable [OF this]
  show ?thesis
    by (simp only: main_def tb sum.case prod.case p1 p2 p3 sha256_b64_returns pk if_True) simp
qed

lemma encodable_server_presenting: "encodable (server_presenting pub) s"
  by (simp add: encodable_def server_presenting_def constant_world_def list_all_iff)

lemma encodable_constant_world: "encodable (constant_world conn parsed) s"
  by (simp add: encodable_def constant_world_def list_all_iff)


lemma ascii_stdout_simps:
  "create_connection (ascii_stdout w) = create_connection w"
  "load_der_x509_certificate (ascii_stdout w) = load_der_x509_certificate w"
  "stdout_has (ascii_stdout w) c = False"
  by (simp_all add: ascii_stdout_def)

lemma get_leaf_cert_der_ascii_stdout:
  "get_leaf_cert_der (ascii_stdout w) host p t ins = get_leaf_cert_der w host p t ins"
  by (simp add: get_leaf_cert_der_def ascii_stdout_simps)

lemma export_raw_public_key_ascii_stdout:
  "export_raw_public_key (ascii_stdout w) d = export_raw_public_key w d"
  by (simp add: export_raw_public_key_def ascii_stdout_simps)

text \<open>Test vectors: RFC 4648, section 10, and FIPS 180-4 (the digest of \<^verbatim>\<open>abc\<close>).\<close>

lemma b64encode_fooba:
  "ascii (b64encode [0x66, 0x6F, 0x6F, 0x62, 0x61]) = ''Zm9vYmE=''"
  by code_simp

lemma sha256_abc:
  "sha256 [0x61, 0x62, 0x63] =
     [0xBA, 0x78, 0x16, 0xBF, 0x8F, 0x01, 0xCF, 0xEA, 0x41, 0x41, 0x40, 0xDE, 0x5D, 0xAE, 0x22, 0x23,
      0xB0, 0x03, 0x61, 0xA3, 0x96, 0x17, 0x7A, 0x9C, 0xB4, 0x10, 0xFF, 0x61, 0xF2, 0x00, 0x15, 0xAD]"
  by code_simp

section \<open>The claims\<close>

text \<open>
  C1. Whenever the certificate is fetched and its key re-encoded, the pin the script
  computes is the Base64 of the SHA-256 of the raw key bytes, the first component that
  \<^const>\<open>export_raw_public_key\<close> returns (the SPKI bytes, the second component, do not
  enter it): \<^const>\<open>sha256_b64\<close> returns that string without raising. The pin is printed
  after the key-format line, so it reaches standard output when the encoding of
  standard output has every character of the label: then the output starts with the
  key-format line followed by the pin line built from that string, and the pin line is
  the second line of the output. When the encoding lacks a character of the label, the
  first \<^verbatim>\<open>print\<close> raises and nothing at all is printed, so no other pin either.
\<close>

theorem printed_pin_is_b64_sha256_of_raw:
  assumes "get_leaf_cert_der w (server a) (port a) (timeout a) (insecure a) = Inr cert_der"
    and "export_raw_public_key w cert_der = Inr (raw, spki, ktype)"
  shows "sha256_b64 raw = Inr (ascii (b64encode (sha256 raw)))
       \<and> (encodable w ktype \<longrightarrow>
            prefix (''Key format (raw export): '' @ ktype @ [CHR 0x0A]
                    @ ''PIN (RAW key)  SHA256 Base64: '' @ ascii (b64encode (sha256 raw))
                    @ ''   <-- use this KEY'' @ [CHR 0x0A])
                   (stdout (main w a))
            \<and> (CHR 0x0A \<notin> set ktype \<longrightarrow>
                 lines_of (stdout (main w a)) ! 1
                   = ''PIN (RAW key)  SHA256 Base64: '' @ ascii (b64encode (sha256 raw))
                       @ ''   <-- use this KEY''))
       \<and> (\<not> encodable w ktype \<longrightarrow> stdout (main w a) = [])"
proof -
  let ?l1 = "''Key format (raw export): '' @ ktype"
  let ?l2 = "''PIN (RAW key)  SHA256 Base64: '' @ ascii (b64encode (sha256 raw))
               @ ''   <-- use this KEY''"
  have tb: "try_body w a = Inr (raw, spki, ktype)"
    using assms by (simp add: try_body_eq)
  have ret: "sha256_b64 raw = Inr (ascii (b64encode (sha256 raw)))"
    by (rule sha256_b64_returns)
  have none: "stdout (main w a) = []" if "\<not> encodable w ktype"
    by (simp add: main_label_not_encodable [OF tb that])
  have some: "\<exists>rest. stdout (main w a) = ?l1 @ CHR 0x0A # ?l2 @ CHR 0x0A # rest"
    if enc: "encodable w ktype"
  proof (cases "print_key a \<and> \<not> stdout_has w [CHR 0xE2, CHR 0x80, CHR 0x94]")
    case True
    then have pk: "print_key a" and hdr: "\<not> stdout_has w [CHR 0xE2, CHR 0x80, CHR 0x94]"
      by blast+
    have "stdout (main w a) = ?l1 @ CHR 0x0A # ?l2 @ CHR 0x0A # []"
      by (simp add: main_header_not_encodable [OF tb enc pk hdr])
    then show ?thesis by blast
  next
    case False
    then have hdr: "print_key a \<longrightarrow> stdout_has w [CHR 0xE2, CHR 0x80, CHR 0x94]"
      by blast
    have "stdout (main w a) = ?l1 @ CHR 0x0A # ?l2 @ CHR 0x0A #
            (if print_key a then key_header @ [CHR 0x0A] @ ascii (b64encode raw) @ [CHR 0x0A]
             else [])"
      by (simp add: main_success [OF tb enc hdr])
    then show ?thesis by blast
  qed
  have pre: "prefix (''Key format (raw export): '' @ ktype @ [CHR 0x0A]
                 @ ''PIN (RAW key)  SHA256 Base64: '' @ ascii (b64encode (sha256 raw))
                 @ ''   <-- use this KEY'' @ [CHR 0x0A]) (stdout (main w a))"
    if enc: "encodable w ktype"
  proof -
    from some [OF enc] obtain rest where
      out: "stdout (main w a) = ?l1 @ CHR 0x0A # ?l2 @ CHR 0x0A # rest" by blast
    have "stdout (main w a) = (?l1 @ [CHR 0x0A] @ ?l2 @ [CHR 0x0A]) @ rest"
      by (simp only: out append.simps append_assoc)
    then show ?thesis
      by (simp only: prefix_def append_assoc) blast
  qed
  have line: "lines_of (stdout (main w a)) ! 1 = ?l2"
    if enc: "encodable w ktype" and nl: "CHR 0x0A \<notin> set ktype"
  proof -
    from some [OF enc] obtain rest where
      out: "stdout (main w a) = ?l1 @ CHR 0x0A # ?l2 @ CHR 0x0A # rest" by blast
    have n1: "CHR 0x0A \<notin> set ?l1" using nl by simp
    have n2: "CHR 0x0A \<notin> set ?l2" using ascii_b64_no_newline [of "sha256 raw"] by simp
    show ?thesis
      unfolding out
      by (simp only: lines_of_line [OF n1] lines_of_line [OF n2] nth_Cons_Suc nth_Cons_0
            One_nat_def)
  qed
  from ret pre line none show ?thesis by blast
qed

theorem printed_pin_is_b64_sha256_of_raw_witness:
  "get_leaf_cert_der (server_presenting (Ed25519PublicKey (replicate 32 0x07)))
      (server (parse_args ''pin.example'' [])) (port (parse_args ''pin.example'' []))
      (timeout (parse_args ''pin.example'' [])) (insecure (parse_args ''pin.example'' []))
     = Inr [0x30, 0x00]
   \<and> export_raw_public_key (server_presenting (Ed25519PublicKey (replicate 32 0x07)))
        [0x30, 0x00]
       = Inr (replicate 32 0x07, spki_der (Ed25519PublicKey (replicate 32 0x07)),
              ''Ed25519PublicKey (raw)'')
   \<and> encodable (server_presenting (Ed25519PublicKey (replicate 32 0x07)))
        ''Ed25519PublicKey (raw)''
   \<and> CHR 0x0A \<notin> set ''Ed25519PublicKey (raw)''
   \<and> lines_of (stdout (main (server_presenting (Ed25519PublicKey (replicate 32 0x07)))
                         (parse_args ''pin.example'' []))) ! 1
       = ''PIN (RAW key)  SHA256 Base64: ''
           @ ascii (b64encode (sha256 (replicate 32 0x07))) @ ''   <-- use this KEY''
   \<and> export_raw_public_key
        (ascii_stdout (server_presenting (X25519PublicKey (replicate 32 0x05)))) [0x30, 0x00]
       = Inr (spki_der (X25519PublicKey (replicate 32 0x05)),
              spki_der (X25519PublicKey (replicate 32 0x05)), fallback_label)
   \<and> \<not> encodable (ascii_stdout (server_presenting (X25519PublicKey (replicate 32 0x05))))
          fallback_label
   \<and> stdout (main (ascii_stdout (server_presenting (X25519PublicKey (replicate 32 0x05))))
                   (parse_args ''pin.example'' [])) = []"
proof -
  let ?pub = "Ed25519PublicKey (replicate 32 0x07)"
  let ?a = "parse_args ''pin.example'' []"
  have h1: "get_leaf_cert_der (server_presenting ?pub) (server ?a) (port ?a) (timeout ?a)
              (insecure ?a) = Inr [0x30, 0x00]"
    by (rule world_fetches)
  have h2: "export_raw_public_key (server_presenting ?pub) [0x30, 0x00]
              = Inr (replicate 32 0x07, spki_der ?pub, ''Ed25519PublicKey (raw)'')"
    using export_raw_public_key_eq [OF world_parses, of ?pub ?pub "[0x30, 0x00]"] by simp
  have h3: "encodable (server_presenting ?pub) ''Ed25519PublicKey (raw)''"
    by (rule encodable_server_presenting)
  have h4: "CHR 0x0A \<notin> set ''Ed25519PublicKey (raw)''" by simp
  have c: "lines_of (stdout (main (server_presenting ?pub) ?a)) ! 1
             = ''PIN (RAW key)  SHA256 Base64: ''
                 @ ascii (b64encode (sha256 (replicate 32 0x07))) @ ''   <-- use this KEY''"
    using printed_pin_is_b64_sha256_of_raw [OF h1 h2] h3 h4 by blast
  let ?x = "X25519PublicKey (replicate 32 0x05)"
  let ?v = "ascii_stdout (server_presenting ?x)"
  have g1: "get_leaf_cert_der ?v (server ?a) (port ?a) (timeout ?a) (insecure ?a)
              = Inr [0x30, 0x00]"
    by (simp only: get_leaf_cert_der_ascii_stdout world_fetches)
  have g2: "export_raw_public_key ?v [0x30, 0x00] = Inr (spki_der ?x, spki_der ?x, fallback_label)"
    using export_raw_public_key_eq [OF world_parses, of ?x ?x "[0x30, 0x00]"]
    by (simp add: export_raw_public_key_ascii_stdout)
  have g3: "\<not> encodable ?v fallback_label"
    by (simp add: encodable_fallback_label ascii_stdout_simps)
  have d: "stdout (main ?v ?a) = []"
    using printed_pin_is_b64_sha256_of_raw [OF g1 g2] g3 by blast
  show ?thesis
    by (rule conjI [OF h1 conjI [OF h2 conjI [OF h3 conjI [OF h4 conjI [OF c conjI [OF g2
          conjI [OF g3 d]]]]]]])
qed


text \<open>
  C2. For a certificate whose key is an RSA key with modulus \<open>n\<close> and exponent \<open>e\<close>,
  the raw key bytes are the DER encoding of the PKCS\#1 \<^verbatim>\<open>RSAPublicKey\<close> structure: a
  \<^verbatim>\<open>SEQUENCE\<close> of the two \<^verbatim>\<open>INTEGER\<close>s, with no algorithm identifier around it (the
  wrapper appears only in the SPKI bytes returned beside them). Read back as such a
  structure, the bytes give \<open>n\<close> and \<open>e\<close> again, for numbers of up to 65536 bits.
\<close>
theorem rsa_raw_is_pkcs1_der:
  assumes "load_der_x509_certificate w cert_der = Inr cert"
    and "cert_public_key cert = Inr (RSAPublicKey n e)"
  shows "export_raw_public_key w cert_der =
           Inr (der_sequence (der_integer n @ der_integer e),
                der_sequence (algorithm_identifier (RSAPublicKey n e)
                              @ der_bit_string (der_sequence (der_integer n @ der_integer e))),
                ''RSA (PKCS#1 DER)'')
         \<and> (n < 256 ^ 8192 \<and> e < 256 ^ 8192 \<longrightarrow>
              read_rsa_public_key (der_sequence (der_integer n @ der_integer e)) = Some (n, e))"
proof -
  have "export_raw_public_key w cert_der =
           Inr (der_sequence (der_integer n @ der_integer e),
                der_sequence (algorithm_identifier (RSAPublicKey n e)
                              @ der_bit_string (der_sequence (der_integer n @ der_integer e))),
                ''RSA (PKCS#1 DER)'')"
    using export_raw_public_key_eq [OF assms]
    by (simp add: pkcs1_der_def spki_der_def)
  moreover have "read_rsa_public_key (der_sequence (der_integer n @ der_integer e)) = Some (n, e)"
    if "n < 256 ^ 8192 \<and> e < 256 ^ 8192"
  proof -
    from that have a: "n < 256 ^ 8192" by (rule conjunct1)
    from that have b: "e < 256 ^ 8192" by (rule conjunct2)
    from read_rsa_public_key_pkcs1_der [OF a b] show ?thesis
      by (simp only: pkcs1_der_def)
  qed
  ultimately show ?thesis by blast
qed

theorem rsa_raw_is_pkcs1_der_witness:
  "load_der_x509_certificate (server_presenting (RSAPublicKey 0xC35F 65537)) [0x30, 0x00]
     = Inr (Certificate (Inr (RSAPublicKey 0xC35F 65537)))
   \<and> cert_public_key (Certificate (Inr (RSAPublicKey 0xC35F 65537)))
       = Inr (RSAPublicKey 0xC35F 65537)
   \<and> ((0xC35F :: nat) < 256 ^ 8192 \<and> (65537 :: nat) < 256 ^ 8192)
   \<and> fst (projr (export_raw_public_key (server_presenting (RSAPublicKey 0xC35F 65537))
                   [0x30, 0x00]))
       = [0x30, 0x0A, 0x02, 0x03, 0x00, 0xC3, 0x5F, 0x02, 0x03, 0x01, 0x00, 0x01]
   \<and> read_rsa_public_key [0x30, 0x0A, 0x02, 0x03, 0x00, 0xC3, 0x5F, 0x02, 0x03, 0x01, 0x00, 0x01]
       = Some (0xC35F, 65537)"
proof -
  let ?pub = "RSAPublicKey 0xC35F 65537"
  have h1: "load_der_x509_certificate (server_presenting ?pub) [0x30, 0x00]
              = Inr (Certificate (Inr ?pub))"
    by (rule world_parses)
  have h2: "cert_public_key (Certificate (Inr ?pub)) = Inr ?pub" by simp
  have h3: "(0xC35F :: nat) < 256 ^ 8192 \<and> (65537 :: nat) < 256 ^ 8192"
    by (intro conjI small_rsa_numbers) simp_all
  note t = rsa_raw_is_pkcs1_der [OF h1 h2]
  from t [THEN conjunct1]
  have c: "fst (projr (export_raw_public_key (server_presenting ?pub) [0x30, 0x00]))
             = [0x30, 0x0A, 0x02, 0x03, 0x00, 0xC3, 0x5F, 0x02, 0x03, 0x01, 0x00, 0x01]"
    by (simp add: pkcs1_der_example)
  from t [THEN conjunct2, rule_format, OF h3]
  have "read_rsa_public_key (der_sequence (der_integer 0xC35F @ der_integer 65537))
          = Some (0xC35F, 65537)" .
  then have d: "read_rsa_public_key
                  [0x30, 0x0A, 0x02, 0x03, 0x00, 0xC3, 0x5F, 0x02, 0x03, 0x01, 0x00, 0x01]
                  = Some (0xC35F, 65537)"
    by (simp only: pkcs1_der_example)
  show ?thesis by (rule conjI [OF h1 conjI [OF h2 conjI [OF h3 conjI [OF c d]]]])
qed


text \<open>
  C3. For a certificate whose key is a point \<open>(x, y)\<close> on a curve of field width \<open>W\<close>
  bytes, the raw key bytes are \<open>1 + 2W\<close> long, start with 0x04, and their two halves
  of \<open>W\<close> bytes are the big-endian forms of \<open>x\<close> and \<open>y\<close>, each padded on the left
  with zero bytes to \<open>W\<close> bytes (and so each half reads back as the coordinate).
\<close>
theorem ec_raw_is_x963_uncompressed:
  assumes "load_der_x509_certificate w cert_der = Inr cert"
    and "cert_public_key cert = Inr (EllipticCurvePublicKey c x y)"
    and "valid_public_key (EllipticCurvePublicKey c x y)"
  shows "case export_raw_public_key w cert_der of
           Inl err \<Rightarrow> False
         | Inr (raw, spki, ktype) \<Rightarrow>
             length raw = 1 + 2 * field_width c
             \<and> raw ! 0 = 0x04
             \<and> take (field_width c) (drop 1 raw)
                 = replicate (field_width c - length (be_bytes x)) 0 @ be_bytes x
             \<and> drop (1 + field_width c) raw
                 = replicate (field_width c - length (be_bytes y)) 0 @ be_bytes y
             \<and> os2ip (take (field_width c) (drop 1 raw)) = x
             \<and> os2ip (drop (1 + field_width c) raw) = y"
proof -
  let ?W = "field_width c"
  from assms(3) have x: "x < 256 ^ ?W" and y: "y < 256 ^ ?W"
    by simp_all
  have px: "i2osp ?W x = replicate (?W - length (be_bytes x)) 0 @ be_bytes x"
    by (rule i2osp_padded [OF x])
  have py: "i2osp ?W y = replicate (?W - length (be_bytes y)) 0 @ be_bytes y"
    by (rule i2osp_padded [OF y])
  have ox: "os2ip (i2osp ?W x) = x" using x by (simp add: os2ip_i2osp)
  have oy: "os2ip (i2osp ?W y) = y" using y by (simp add: os2ip_i2osp)
  have raw: "export_raw_public_key w cert_der =
               Inr (0x04 # i2osp ?W x @ i2osp ?W y, spki_der (EllipticCurvePublicKey c x y),
                    ''EC '' @ curve_name c @ '' (X9.63 uncompressed)'')"
    using export_raw_public_key_eq [OF assms(1,2)] by (simp add: x962_uncompressed_def)
  let ?raw = "0x04 # i2osp ?W x @ i2osp ?W y"
  have len: "length ?raw = 1 + 2 * ?W" by (simp add: length_i2osp)
  have first: "?raw ! 0 = 0x04" by simp
  have tx: "take ?W (drop 1 ?raw) = i2osp ?W x" by (simp add: length_i2osp)
  have dy: "drop (1 + ?W) ?raw = i2osp ?W y" by (simp add: length_i2osp)
  show ?thesis
    by (simp only: raw sum.case prod.case len first tx dy ox oy
          px [symmetric] py [symmetric] simp_thms)
qed

theorem ec_raw_is_x963_uncompressed_witness:
  "load_der_x509_certificate
     (server_presenting (EllipticCurvePublicKey secp256r1
        0x6B17D1F2E12C4247F8BCE6E563A440F277037D812DEB33A0F4A13945D898C296
        0x4FE342E2FE1A7F9B8EE7EB4A7C0F9E162BCE33576B315ECECBB6406837BF51F5)) [0x30, 0x00]
     = Inr (Certificate (Inr (EllipticCurvePublicKey secp256r1
        0x6B17D1F2E12C4247F8BCE6E563A440F277037D812DEB33A0F4A13945D898C296
        0x4FE342E2FE1A7F9B8EE7EB4A7C0F9E162BCE33576B315ECECBB6406837BF51F5)))
   \<and> valid_public_key (EllipticCurvePublicKey secp256r1
        0x6B17D1F2E12C4247F8BCE6E563A440F277037D812DEB33A0F4A13945D898C296
        0x4FE342E2FE1A7F9B8EE7EB4A7C0F9E162BCE33576B315ECECBB6406837BF51F5)
   \<and> length (fst (projr (export_raw_public_key
        (server_presenting (EllipticCurvePublicKey secp256r1
           0x6B17D1F2E12C4247F8BCE6E563A440F277037D812DEB33A0F4A13945D898C296
           0x4FE342E2FE1A7F9B8EE7EB4A7C0F9E162BCE33576B315ECECBB6406837BF51F5))
        [0x30, 0x00]))) = 65
   \<and> os2ip (take 32 (drop 1 (fst (projr (export_raw_public_key
        (server_presenting (EllipticCurvePublicKey secp256r1
           0x6B17D1F2E12C4247F8BCE6E563A440F277037D812DEB33A0F4A13945D898C296
           0x4FE342E2FE1A7F9B8EE7EB4A7C0F9E162BCE33576B315ECECBB6406837BF51F5))
        [0x30, 0x00])))))
       = 0x6B17D1F2E12C4247F8BCE6E563A440F277037D812DEB33A0F4A13945D898C296"
proof -
  let ?x = "0x6B17D1F2E12C4247F8BCE6E563A440F277037D812DEB33A0F4A13945D898C296 :: nat"
  let ?y = "0x4FE342E2FE1A7F9B8EE7EB4A7C0F9E162BCE33576B315ECECBB6406837BF51F5 :: nat"
  let ?pub = "EllipticCurvePublicKey secp256r1 ?x ?y"
  let ?w = "server_presenting ?pub"
  have h1: "load_der_x509_certificate ?w [0x30, 0x00] = Inr (Certificate (Inr ?pub))"
    by (rule world_parses)
  have h2: "cert_public_key (Certificate (Inr ?pub)) = Inr ?pub" by simp
  have h3: "valid_public_key ?pub" by (simp add: field_width_def secp256r1_def)
  have fw: "field_width secp256r1 = 32" by (simp add: field_width_def secp256r1_def)
  obtain raw spki ktype where e: "export_raw_public_key ?w [0x30, 0x00] = Inr (raw, spki, ktype)"
    using export_raw_public_key_eq [OF h1 h2] by simp
  note t = ec_raw_is_x963_uncompressed [OF h1 h2 h3, unfolded e sum.case prod.case fw]
  from t have "length raw = 1 + 2 * 32" by (rule conjunct1)
  then have l: "length raw = 65" by simp
  from t have o: "os2ip (take 32 (drop 1 raw)) = ?x" by blast
  from l o have c1: "length (fst (projr (export_raw_public_key ?w [0x30, 0x00]))) = 65"
    and c2: "os2ip (take 32 (drop 1 (fst (projr (export_raw_public_key ?w [0x30, 0x00]))))) = ?x"
    by (simp_all only: e sum.sel fst_conv)
  show ?thesis by (rule conjI [OF h1 conjI [OF h3 conjI [OF c1 c2]]])
qed


text \<open>
  C4. For a certificate whose key is an Ed25519 (Ed448) key, the raw key bytes are the
  key's own raw encoding, 32 (57) bytes long, with no wrapper; the wrapper appears only
  in the SPKI bytes returned beside them.
\<close>
theorem ed_raw_is_native_encoding:
  assumes "load_der_x509_certificate w cert_der = Inr cert"
    and "cert_public_key cert = Inr pub"
    and "pub = Ed25519PublicKey k \<or> pub = Ed448PublicKey k"
    and "valid_public_key pub"
  shows "case export_raw_public_key w cert_der of
           Inl err \<Rightarrow> False
         | Inr (raw, spki, ktype) \<Rightarrow>
             raw = k \<and> length raw = (if is_Ed25519PublicKey pub then 32 else 57)
             \<and> spki = der_sequence (algorithm_identifier pub @ der_bit_string raw)"
  using export_raw_public_key_eq [OF assms(1,2)] assms(3,4)
  by (auto simp: spki_der_def)

theorem ed_raw_is_native_encoding_witness:
  "valid_public_key (Ed25519PublicKey (replicate 32 0x07))
   \<and> export_raw_public_key (server_presenting (Ed25519PublicKey (replicate 32 0x07)))
        [0x30, 0x00]
       = Inr (replicate 32 0x07,
              der_sequence (der_sequence (der_oid [0x2B, 0x65, 0x70])
                            @ der_bit_string (replicate 32 0x07)),
              ''Ed25519PublicKey (raw)'')
   \<and> valid_public_key (Ed448PublicKey (replicate 57 0x09))
   \<and> length (fst (projr (export_raw_public_key
                 (server_presenting (Ed448PublicKey (replicate 57 0x09))) [0x30, 0x00]))) = 57"
proof -
  let ?p = "Ed25519PublicKey (replicate 32 0x07)"
  let ?q = "Ed448PublicKey (replicate 57 0x09)"
  have p1: "load_der_x509_certificate (server_presenting ?p) [0x30, 0x00]
              = Inr (Certificate (Inr ?p))" by (rule world_parses)
  have p2: "cert_public_key (Certificate (Inr ?p)) = Inr ?p" by simp
  have p3: "?p = Ed25519PublicKey (replicate 32 0x07) \<or> ?p = Ed448PublicKey (replicate 32 0x07)"
    by simp
  have p4: "valid_public_key ?p" by simp
  have q1: "load_der_x509_certificate (server_presenting ?q) [0x30, 0x00]
              = Inr (Certificate (Inr ?q))" by (rule world_parses)
  have q2: "cert_public_key (Certificate (Inr ?q)) = Inr ?q" by simp
  have q3: "?q = Ed25519PublicKey (replicate 57 0x09) \<or> ?q = Ed448PublicKey (replicate 57 0x09)"
    by simp
  have q4: "valid_public_key ?q" by simp
  have ep: "export_raw_public_key (server_presenting ?p) [0x30, 0x00]
              = Inr (replicate 32 0x07, spki_der ?p, ''Ed25519PublicKey (raw)'')"
    using export_raw_public_key_eq [OF p1 p2] by simp
  have c1: "export_raw_public_key (server_presenting ?p) [0x30, 0x00]
       = Inr (replicate 32 0x07,
              der_sequence (der_sequence (der_oid [0x2B, 0x65, 0x70])
                            @ der_bit_string (replicate 32 0x07)),
              ''Ed25519PublicKey (raw)'')"
    using ed_raw_is_native_encoding [OF p1 p2 p3 p4] by (simp add: ep)
  obtain raw spki ktype where
    eq: "export_raw_public_key (server_presenting ?q) [0x30, 0x00] = Inr (raw, spki, ktype)"
    using export_raw_public_key_eq [OF q1 q2] by simp
  from ed_raw_is_native_encoding [OF q1 q2 q3 q4] have "length raw = 57"
    by (simp add: eq)
  then have c2: "length (fst (projr (export_raw_public_key (server_presenting ?q)
                    [0x30, 0x00]))) = 57"
    by (simp add: eq)
  show ?thesis by (rule conjI [OF p4 conjI [OF c1 conjI [OF q4 c2]]])
qed


text \<open>
  C5, as the script has it. The label names the rule that fired: \<^verbatim>\<open>RSA (PKCS#1 DER)\<close>
  for an RSA key, \<^verbatim>\<open>EC <curve name> (X9.63 uncompressed)\<close> for a point on a curve, the
  arrow text of the fallback for any other family, and for Ed25519 and Ed448 keys the
  name of the key object's class followed by \<^verbatim>\<open> (raw)\<close>, which reads
  \<^verbatim>\<open>Ed25519PublicKey (raw)\<close> and \<^verbatim>\<open>Ed448PublicKey (raw)\<close>.
\<close>
theorem key_type_label:
  assumes "load_der_x509_certificate w cert_der = Inr cert"
    and "cert_public_key cert = Inr pub"
  shows "case export_raw_public_key w cert_der of
           Inl err \<Rightarrow> False
         | Inr (raw, spki, ktype) \<Rightarrow>
             ktype = (case pub of
                        RSAPublicKey n e \<Rightarrow> ''RSA (PKCS#1 DER)''
                      | EllipticCurvePublicKey c x y \<Rightarrow>
                          ''EC '' @ curve_name c @ '' (X9.63 uncompressed)''
                      | Ed25519PublicKey k \<Rightarrow> class_name pub @ '' (raw)''
                      | Ed448PublicKey k \<Rightarrow> class_name pub @ '' (raw)''
                      | _ \<Rightarrow> ''Unknown type '' @ [CHR 0xE2, CHR 0x86, CHR 0x92]
                               @ '' SPKI fallback'')"
  using export_raw_public_key_eq [OF assms]
  by (cases pub) (simp_all add: fallback_label_def)

theorem key_type_label_witness:
  "load_der_x509_certificate (server_presenting (Ed448PublicKey (replicate 57 0x09))) [0x30, 0x00]
     = Inr (Certificate (Inr (Ed448PublicKey (replicate 57 0x09))))
   \<and> cert_public_key (Certificate (Inr (Ed448PublicKey (replicate 57 0x09))))
       = Inr (Ed448PublicKey (replicate 57 0x09))
   \<and> snd (snd (projr (export_raw_public_key
                        (server_presenting (Ed448PublicKey (replicate 57 0x09))) [0x30, 0x00])))
       = ''Ed448PublicKey (raw)''"
proof -
  let ?q = "Ed448PublicKey (replicate 57 0x09)"
  have h1: "load_der_x509_certificate (server_presenting ?q) [0x30, 0x00]
              = Inr (Certificate (Inr ?q))" by (rule world_parses)
  have h2: "cert_public_key (Certificate (Inr ?q)) = Inr ?q" by simp
  obtain raw spki ktype where
    e: "export_raw_public_key (server_presenting ?q) [0x30, 0x00] = Inr (raw, spki, ktype)"
    using export_raw_public_key_eq [OF h1 h2] by simp
  from key_type_label [OF h1 h2] have "ktype = ''Ed448PublicKey (raw)''"
    by (simp add: e)
  then have c: "snd (snd (projr (export_raw_public_key (server_presenting ?q) [0x30, 0x00])))
                  = ''Ed448PublicKey (raw)''"
    by (simp add: e)
  show ?thesis by (rule conjI [OF h1 conjI [OF h2 c]])
qed

text \<open>
  C5, as the specification states it, gives \<^verbatim>\<open>Ed25519 (raw)\<close> for an Ed25519 key. The
  script builds the label from \<^verbatim>\<open>pub.__class__.__name__\<close>, so a certificate with an
  Ed25519 key is labelled \<^verbatim>\<open>Ed25519PublicKey (raw)\<close>.
\<close>
theorem ed25519_label_counterexample:
  "export_raw_public_key (server_presenting (Ed25519PublicKey (replicate 32 0x07))) [0x30, 0x00]
     = Inr (replicate 32 0x07, spki_der (Ed25519PublicKey (replicate 32 0x07)),
            ''Ed25519PublicKey (raw)'')
   \<and> ''Ed25519PublicKey (raw)'' \<noteq> ''Ed25519 (raw)''"
  by (simp add: export_raw_public_key_def server_presenting_def constant_world_def
        public_bytes_def)


text \<open>
  C6. For a certificate whose key was loaded and is of none of the four recognised
  families, the raw key bytes are the full \<^verbatim>\<open>SubjectPublicKeyInfo\<close> DER encoding, a
  \<^verbatim>\<open>SEQUENCE\<close> of the algorithm identifier and the \<^verbatim>\<open>BIT STRING\<close> of the key, and the
  label is \<^verbatim>\<open>Unknown type -> SPKI fallback\<close> (with the arrow character U+2192). For a
  certificate whose key the library cannot load, \<^verbatim>\<open>cert.public_key()\<close> raises before
  the chain of type tests is reached, and \<^const>\<open>export_raw_public_key\<close> raises the same
  exception: there is no fallback for such a key.
\<close>

theorem unknown_key_falls_back_to_spki:
  assumes "load_der_x509_certificate w cert_der = Inr cert"
  shows "(cert_public_key cert = Inr pub
          \<and> \<not> is_RSAPublicKey pub \<and> \<not> is_EllipticCurvePublicKey pub
          \<and> \<not> is_Ed25519PublicKey pub \<and> \<not> is_Ed448PublicKey pub
          \<longrightarrow> export_raw_public_key w cert_der =
                Inr (der_sequence (algorithm_identifier pub
                                   @ der_bit_string (subject_public_key pub)),
                     spki_der pub,
                     ''Unknown type '' @ [CHR 0xE2, CHR 0x86, CHR 0x92] @ '' SPKI fallback''))
       \<and> (cert_public_key cert = Inl e \<longrightarrow> export_raw_public_key w cert_der = Inl e)"
proof (intro conjI impI)
  assume h: "cert_public_key cert = Inr pub
          \<and> \<not> is_RSAPublicKey pub \<and> \<not> is_EllipticCurvePublicKey pub
          \<and> \<not> is_Ed25519PublicKey pub \<and> \<not> is_Ed448PublicKey pub"
  then have k: "cert_public_key cert = Inr pub" by (rule conjunct1)
  from export_raw_public_key_eq [OF assms k] h
  show "export_raw_public_key w cert_der =
                Inr (der_sequence (algorithm_identifier pub
                                   @ der_bit_string (subject_public_key pub)),
                     spki_der pub,
                     ''Unknown type '' @ [CHR 0xE2, CHR 0x86, CHR 0x92] @ '' SPKI fallback'')"
    by (cases pub) (simp_all add: fallback_label_def spki_der_def)
next
  assume "cert_public_key cert = Inl e"
  with assms show "export_raw_public_key w cert_der = Inl e"
    by (simp add: export_raw_public_key_def)
qed

theorem unknown_key_falls_back_to_spki_witness:
  "load_der_x509_certificate (server_presenting (X25519PublicKey (replicate 32 0x05))) [0x30, 0x00]
     = Inr (Certificate (Inr (X25519PublicKey (replicate 32 0x05))))
   \<and> (cert_public_key (Certificate (Inr (X25519PublicKey (replicate 32 0x05))))
         = Inr (X25519PublicKey (replicate 32 0x05))
        \<and> \<not> is_RSAPublicKey (X25519PublicKey (replicate 32 0x05))
        \<and> \<not> is_EllipticCurvePublicKey (X25519PublicKey (replicate 32 0x05))
        \<and> \<not> is_Ed25519PublicKey (X25519PublicKey (replicate 32 0x05))
        \<and> \<not> is_Ed448PublicKey (X25519PublicKey (replicate 32 0x05)))
   \<and> export_raw_public_key (server_presenting (X25519PublicKey (replicate 32 0x05))) [0x30, 0x00]
       = Inr (der_sequence (der_sequence (der_oid [0x2B, 0x65, 0x6E])
                            @ der_bit_string (replicate 32 0x05)),
              spki_der (X25519PublicKey (replicate 32 0x05)),
              ''Unknown type '' @ [CHR 0xE2, CHR 0x86, CHR 0x92] @ '' SPKI fallback'')
   \<and> load_der_x509_certificate
        (constant_world (Inr (plain_peer True [0x30, 0x00]))
           (Inr (Certificate (Inl (UnsupportedAlgorithm ''Unknown key type''))))) [0x30, 0x00]
       = Inr (Certificate (Inl (UnsupportedAlgorithm ''Unknown key type'')))
   \<and> cert_public_key (Certificate (Inl (UnsupportedAlgorithm ''Unknown key type'')))
       = Inl (UnsupportedAlgorithm ''Unknown key type'')
   \<and> export_raw_public_key
        (constant_world (Inr (plain_peer True [0x30, 0x00]))
           (Inr (Certificate (Inl (UnsupportedAlgorithm ''Unknown key type''))))) [0x30, 0x00]
       = Inl (UnsupportedAlgorithm ''Unknown key type'')"
proof -
  let ?p = "X25519PublicKey (replicate 32 0x05)"
  have h1: "load_der_x509_certificate (server_presenting ?p) [0x30, 0x00]
              = Inr (Certificate (Inr ?p))" by (rule world_parses)
  have h2: "cert_public_key (Certificate (Inr ?p)) = Inr ?p
            \<and> \<not> is_RSAPublicKey ?p \<and> \<not> is_EllipticCurvePublicKey ?p
            \<and> \<not> is_Ed25519PublicKey ?p \<and> \<not> is_Ed448PublicKey ?p" by simp
  have c: "export_raw_public_key (server_presenting ?p) [0x30, 0x00]
       = Inr (der_sequence (der_sequence (der_oid [0x2B, 0x65, 0x6E])
                            @ der_bit_string (replicate 32 0x05)),
              spki_der ?p,
              ''Unknown type '' @ [CHR 0xE2, CHR 0x86, CHR 0x92] @ '' SPKI fallback'')"
    using unknown_key_falls_back_to_spki [OF h1, of ?p "ValueError []", THEN conjunct1,
            rule_format, OF h2]
    by simp
  let ?e = "UnsupportedAlgorithm ''Unknown key type''"
  let ?w = "constant_world (Inr (plain_peer True [0x30, 0x00])) (Inr (Certificate (Inl ?e)))"
  have g1: "load_der_x509_certificate ?w [0x30, 0x00] = Inr (Certificate (Inl ?e))"
    by (simp add: constant_world_def)
  have g2: "cert_public_key (Certificate (Inl ?e)) = Inl ?e" by simp
  note d = unknown_key_falls_back_to_spki [OF g1, of ?p ?e, THEN conjunct2, rule_format, OF g2]
  show ?thesis
    by (rule conjI [OF h1 conjI [OF h2 conjI [OF c conjI [OF g1 conjI [OF g2 d]]]]])
qed

text \<open>
  A certificate whose key is of none of the four families because the library does not
  support its algorithm: no fallback, the script prints \<^verbatim>\<open>Error: Unknown key type\<close> on
  the error stream and ends with exit code 1, with nothing on standard output.
\<close>

theorem unloadable_key_counterexample:
  "load_der_x509_certificate
     (constant_world (Inr (plain_peer True [0x30, 0x00]))
        (Inr (Certificate (Inl (UnsupportedAlgorithm ''Unknown key type''))))) [0x30, 0x00]
     = Inr (Certificate (Inl (UnsupportedAlgorithm ''Unknown key type'')))
   \<and> export_raw_public_key
        (constant_world (Inr (plain_peer True [0x30, 0x00]))
           (Inr (Certificate (Inl (UnsupportedAlgorithm ''Unknown key type''))))) [0x30, 0x00]
       = Inl (UnsupportedAlgorithm ''Unknown key type'')
   \<and> main (constant_world (Inr (plain_peer True [0x30, 0x00]))
              (Inr (Certificate (Inl (UnsupportedAlgorithm ''Unknown key type'')))))
           (parse_args ''pin.example'' [])
       = \<lparr>stdout = [], stderr = ''Error: Unknown key type'' @ [CHR 0x0A], ending = Exit 1\<rparr>"
proof -
  let ?e = "UnsupportedAlgorithm ''Unknown key type''"
  let ?w = "constant_world (Inr (plain_peer True [0x30, 0x00])) (Inr (Certificate (Inl ?e)))"
  let ?a = "parse_args ''pin.example'' []"
  have g1: "load_der_x509_certificate ?w [0x30, 0x00] = Inr (Certificate (Inl ?e))"
    by (simp add: constant_world_def)
  have x: "export_raw_public_key ?w [0x30, 0x00] = Inl ?e"
    by (simp add: export_raw_public_key_def constant_world_def)
  have f: "get_leaf_cert_der ?w (server ?a) (port ?a) (timeout ?a) (insecure ?a)
             = Inr [0x30, 0x00]"
    by (simp add: get_leaf_cert_der_def constant_world_def plain_peer_def wrap_socket_def
          create_default_context_def parse_args_def getpeercert_def)
  have tb: "try_body ?w ?a = Inl ?e"
    using f x by (simp add: try_body_def)
  have m: "main ?w ?a
       = \<lparr>stdout = [], stderr = ''Error: Unknown key type'' @ [CHR 0x0A], ending = Exit 1\<rparr>"
    using main_failure [OF tb] by simp
  show ?thesis by (rule conjI [OF g1 conjI [OF x m]])
qed










text \<open>
  C9. Without \<^verbatim>\<open>--insecure\<close> the handshake runs with the default context (chain
  verification required, host name checked): it fails when the peer's chain is not
  trusted or its certificate does not match the host, and returns the leaf certificate
  when both hold. With \<^verbatim>\<open>insecure\<close> true nothing is validated and the leaf
  certificate is returned whatever the trust. The flag is on exactly when the option
  was passed, so never by default.
\<close>
theorem tls_validation_is_default:
  assumes "create_connection w host p t = Inr sock"
  shows "(\<not> chain_trusted sock \<or> \<not> valid_for sock host \<longrightarrow>
            isl (get_leaf_cert_der w host p t False))
       \<and> (handshake_error sock = None \<and> chain_trusted sock \<and> valid_for sock host \<longrightarrow>
            get_leaf_cert_der w host p t False = Inr (leaf_der sock))
       \<and> (handshake_error sock = None \<longrightarrow>
            get_leaf_cert_der w host p t True = Inr (leaf_der sock))
       \<and> insecure (parse_args srv opts) = (Opt_insecure \<in> set opts)
       \<and> \<not> insecure (parse_args srv [])"
proof -
  have unverified: "get_leaf_cert_der w host p t True = Inr (leaf_der sock)"
    if "handshake_error sock = None"
    using assms that
    by (simp add: get_leaf_cert_der_def wrap_socket_def create_unverified_context_def
          getpeercert_def)
  have verified: "get_leaf_cert_der w host p t False = Inr (leaf_der sock)"
    if "handshake_error sock = None" "chain_trusted sock" "valid_for sock host"
    using assms that
    by (simp add: get_leaf_cert_der_def wrap_socket_def create_default_context_def
          getpeercert_def)
  have rejected: "isl (get_leaf_cert_der w host p t False)"
    if "\<not> chain_trusted sock \<or> \<not> valid_for sock host"
  proof (cases "handshake_error sock")
    case None
    with assms that show ?thesis
      by (auto simp: get_leaf_cert_der_def wrap_socket_def create_default_context_def)
  next
    case (Some err)
    with assms show ?thesis
      by (simp add: get_leaf_cert_der_def wrap_socket_def create_default_context_def)
  qed
  have flag: "insecure (parse_args srv opts) = (Opt_insecure \<in> set opts)"
    by (rule insecure_parse_args)
  have dflt: "\<not> insecure (parse_args srv [])"
    by (simp add: insecure_parse_args)
  from unverified verified rejected flag dflt show ?thesis by blast
qed

theorem tls_validation_is_default_witness:
  "create_connection (constant_world (Inr (plain_peer False [0x30, 0x00])) (Inl (ValueError [])))
      ''self-signed.example'' 443 5 = Inr (plain_peer False [0x30, 0x00])
   \<and> \<not> chain_trusted (plain_peer False [0x30, 0x00])
   \<and> handshake_error (plain_peer False [0x30, 0x00]) = None
   \<and> isl (get_leaf_cert_der
             (constant_world (Inr (plain_peer False [0x30, 0x00])) (Inl (ValueError [])))
             ''self-signed.example'' 443 5 False)
   \<and> get_leaf_cert_der
        (constant_world (Inr (plain_peer False [0x30, 0x00])) (Inl (ValueError [])))
        ''self-signed.example'' 443 5 True = Inr [0x30, 0x00]
   \<and> create_connection (constant_world (Inr (plain_peer True [0x30, 0x00])) (Inl (ValueError [])))
        ''pin.example'' 443 5 = Inr (plain_peer True [0x30, 0x00])
   \<and> (handshake_error (plain_peer True [0x30, 0x00]) = None
        \<and> chain_trusted (plain_peer True [0x30, 0x00])
        \<and> valid_for (plain_peer True [0x30, 0x00]) ''pin.example'')
   \<and> get_leaf_cert_der
        (constant_world (Inr (plain_peer True [0x30, 0x00])) (Inl (ValueError [])))
        ''pin.example'' 443 5 False = Inr [0x30, 0x00]
   \<and> insecure (parse_args ''pin.example'' [Opt_port 8443, Opt_insecure])"
proof -
  let ?bad = "plain_peer False [0x30, 0x00]"
  let ?good = "plain_peer True [0x30, 0x00]"
  let ?w1 = "constant_world (Inr ?bad) (Inl (ValueError []))"
  let ?w2 = "constant_world (Inr ?good) (Inl (ValueError []))"
  have h1: "create_connection ?w1 ''self-signed.example'' 443 5 = Inr ?bad"
    by (simp add: constant_world_def)
  have u: "\<not> chain_trusted ?bad" by (simp add: plain_peer_def)
  have hs: "handshake_error ?bad = None" by (simp add: plain_peer_def)
  have lf: "leaf_der ?bad = [0x30, 0x00]" by (simp add: plain_peer_def)
  note t1 = tls_validation_is_default [OF h1, of "''pin.example''" "[Opt_port 8443, Opt_insecure]"]
  from t1 u have c1: "isl (get_leaf_cert_der ?w1 ''self-signed.example'' 443 5 False)"
    by blast
  from t1 hs have "get_leaf_cert_der ?w1 ''self-signed.example'' 443 5 True = Inr (leaf_der ?bad)"
    by blast
  then have c2: "get_leaf_cert_der ?w1 ''self-signed.example'' 443 5 True = Inr [0x30, 0x00]"
    by (simp only: lf)
  have o: "Opt_insecure \<in> set [Opt_port 8443, Opt_insecure]" by simp
  from t1 o have c3: "insecure (parse_args ''pin.example'' [Opt_port 8443, Opt_insecure])"
    by blast
  have h2: "create_connection ?w2 ''pin.example'' 443 5 = Inr ?good"
    by (simp add: constant_world_def)
  have g: "handshake_error ?good = None \<and> chain_trusted ?good \<and> valid_for ?good ''pin.example''"
    by (simp add: plain_peer_def)
  have lg: "leaf_der ?good = [0x30, 0x00]" by (simp add: plain_peer_def)
  note t2 = tls_validation_is_default [OF h2, of "''pin.example''" "[]"]
  from t2 g have "get_leaf_cert_der ?w2 ''pin.example'' 443 5 False = Inr (leaf_der ?good)"
    by blast
  then have c4: "get_leaf_cert_der ?w2 ''pin.example'' 443 5 False = Inr [0x30, 0x00]"
    by (simp only: lg)
  show ?thesis
    by (rule conjI [OF h1 conjI [OF u conjI [OF hs conjI [OF c1 conjI [OF c2 conjI [OF h2
          conjI [OF g conjI [OF c4 c3]]]]]]]])
qed


text \<open>
  C10. In every branch the SPKI bytes are the same call,
  \<^verbatim>\<open>public_bytes(DER, SubjectPublicKeyInfo)\<close>, on the same key. For a key of none of the
  recognised families the raw key bytes equal the SPKI bytes byte for byte, so the pin
  is the pin of the SPKI bytes; for a recognised family the raw key bytes are the
  content of the SPKI's bit string and differ from the SPKI bytes.
\<close>
theorem spki_same_in_every_branch:
  assumes "load_der_x509_certificate w cert_der = Inr cert"
    and "cert_public_key cert = Inr pub"
  shows "case export_raw_public_key w cert_der of
           Inl err \<Rightarrow> False
         | Inr (raw, spki, ktype) \<Rightarrow>
             public_bytes pub Encoding_DER PublicFormat_SubjectPublicKeyInfo = Inr spki
             \<and> spki = spki_der pub
             \<and> (\<not> is_RSAPublicKey pub \<and> \<not> is_EllipticCurvePublicKey pub
                  \<and> \<not> is_Ed25519PublicKey pub \<and> \<not> is_Ed448PublicKey pub
                \<longrightarrow> raw = spki \<and> sha256_b64 raw = sha256_b64 spki)
             \<and> (is_RSAPublicKey pub \<or> is_EllipticCurvePublicKey pub
                  \<or> is_Ed25519PublicKey pub \<or> is_Ed448PublicKey pub
                \<longrightarrow> raw = subject_public_key pub \<and> raw \<noteq> spki)"
proof -
  have "subject_public_key pub \<noteq> spki_der pub"
    using spki_der_longer [of pub] by auto
  then show ?thesis
    using export_raw_public_key_eq [OF assms]
    by (cases pub) (simp_all add: public_bytes_def)
qed

theorem spki_same_in_every_branch_witness:
  "load_der_x509_certificate (server_presenting (DSAPublicKey 23 11 4 9)) [0x30, 0x00]
     = Inr (Certificate (Inr (DSAPublicKey 23 11 4 9)))
   \<and> (\<not> is_RSAPublicKey (DSAPublicKey 23 11 4 9)
        \<and> \<not> is_EllipticCurvePublicKey (DSAPublicKey 23 11 4 9)
        \<and> \<not> is_Ed25519PublicKey (DSAPublicKey 23 11 4 9)
        \<and> \<not> is_Ed448PublicKey (DSAPublicKey 23 11 4 9))
   \<and> fst (projr (export_raw_public_key (server_presenting (DSAPublicKey 23 11 4 9))
                   [0x30, 0x00]))
       = fst (snd (projr (export_raw_public_key (server_presenting (DSAPublicKey 23 11 4 9))
                            [0x30, 0x00])))
   \<and> is_RSAPublicKey (RSAPublicKey 0xC35F 65537)
   \<and> fst (projr (export_raw_public_key (server_presenting (RSAPublicKey 0xC35F 65537))
                   [0x30, 0x00]))
       \<noteq> fst (snd (projr (export_raw_public_key (server_presenting (RSAPublicKey 0xC35F 65537))
                            [0x30, 0x00])))"
proof -
  let ?p = "DSAPublicKey 23 11 4 9"
  let ?r = "RSAPublicKey 0xC35F 65537"
  have h1: "load_der_x509_certificate (server_presenting ?p) [0x30, 0x00]
              = Inr (Certificate (Inr ?p))" by (rule world_parses)
  have h2: "cert_public_key (Certificate (Inr ?p)) = Inr ?p" by simp
  have n: "\<not> is_RSAPublicKey ?p \<and> \<not> is_EllipticCurvePublicKey ?p
           \<and> \<not> is_Ed25519PublicKey ?p \<and> \<not> is_Ed448PublicKey ?p" by simp
  obtain raw spki ktype where
    e: "export_raw_public_key (server_presenting ?p) [0x30, 0x00] = Inr (raw, spki, ktype)"
    using export_raw_public_key_eq [OF h1 h2] by simp
  note t = spki_same_in_every_branch [OF h1 h2, unfolded e sum.case prod.case]
  from t n have "raw = spki" by blast
  then have c1: "fst (projr (export_raw_public_key (server_presenting ?p) [0x30, 0x00]))
       = fst (snd (projr (export_raw_public_key (server_presenting ?p) [0x30, 0x00])))"
    by (simp add: e)
  have r1: "load_der_x509_certificate (server_presenting ?r) [0x30, 0x00]
              = Inr (Certificate (Inr ?r))" by (rule world_parses)
  have r2: "cert_public_key (Certificate (Inr ?r)) = Inr ?r" by simp
  have r3: "is_RSAPublicKey ?r" by simp
  obtain raw' spki' ktype' where
    e': "export_raw_public_key (server_presenting ?r) [0x30, 0x00] = Inr (raw', spki', ktype')"
    using export_raw_public_key_eq [OF r1 r2] by simp
  note t' = spki_same_in_every_branch [OF r1 r2, unfolded e' sum.case prod.case]
  from t' r3 have "raw' \<noteq> spki'" by blast
  then have c2: "fst (projr (export_raw_public_key (server_presenting ?r) [0x30, 0x00]))
       \<noteq> fst (snd (projr (export_raw_public_key (server_presenting ?r) [0x30, 0x00])))"
    by (simp add: e')
  show ?thesis by (rule conjI [OF h1 conjI [OF n conjI [OF c1 conjI [OF r3 c2]]]])
qed

end
